theory Spec2Isabelle
  imports Main "HOL-Library.Word"
begin

unbundle bit_operations_syntax

section \<open>The O3 fetch stage with a decoupled front-end (src/cpu/o3/fetch.cc)\<close>

text \<open>
  The fetch stage is a C++ object whose member functions mutate its fields and call out to
  the CPU, the MMU, the instruction-cache port, the decoder and the fetch-target queue.
  The embedding passes the object explicitly: every member function takes the state and
  returns the state it leaves, or an \<open>error\<close> when an assertion of the source fails.
  Objects that the source shares by pointer (requests, packets, fetch targets) live in
  stores indexed by their address; a null pointer is \<open>None\<close>.  What the collaborators
  answer during a call (does the cache accept the packet, does the MMU complete at once)
  is an argument of the call.  Calls out of the stage that leave no trace in its fields
  are appended to \<open>extLog\<close>.
\<close>

subsection \<open>Basic types\<close>

type_synonym Addr = "64 word"
type_synonym ThreadID = int
type_synonym Tick = nat
type_synonym InstSeqNum = nat
type_synonym req_ptr = nat
type_synonym pkt_ptr = nat
type_synonym ft_ptr = nat

text \<open>A fault is a nullable pointer in the source; \<open>NoFault\<close> is the null pointer.\<close>

type_synonym Fault = "string option"

definition NoFault :: Fault where
  "NoFault = None"

definition InvalidThreadID :: ThreadID where
  "InvalidThreadID = - 1"

datatype error = AssertionFailed string | Panic string | Fatal string | NotEnabled

datatype ThreadStatus =
    Running | Idle | Squashing | Blocked | FTQEmpty | QuiescePending | ItlbWait
  | IcacheWaitResponse | IcacheWaitRetry | IcacheAccessComplete | NoGoodAddr | TrapPending

datatype FetchStatus = Active | Inactive

datatype SMTFetchPolicy = RoundRobin | IQCount | LSQCount | Branch

record PCState =
  instAddr :: Addr
  microPC :: nat

record StaticInst =
  siName :: string
  siIsLastMicroop :: bool
  siIsDelayedCommit :: bool

record DynInst =
  seqNum :: InstSeqNum
  instTid :: ThreadID
  instStaticInst :: StaticInst
  instMacroop :: "StaticInst option"
  instPC :: PCState
  instPredTarg :: PCState
  instNotAnInst :: bool
  instFault :: Fault

record Request =
  reqVaddr :: Addr
  reqSize :: Addr
  reqInstFetch :: bool
  reqRequestorId :: nat
  reqPC :: Addr
  reqContextId :: int
  reqTaskId :: nat
  reqPaddr :: "Addr option"
  reqAccessDepth :: nat

record Packet =
  pktReq :: req_ptr
  pktData :: "8 word list"

text \<open>
  Modelled from the spec: the fetch target and the fetch-target queue are declared in
  cpu/o3/ftq.hh, which is not among the sources.  The spec gives a fetch target a state
  with the lifecycle Initial, TranslationInProgress, TranslationReady or TranslationFailed,
  PrefetchInProgress, ReadyToFetch, an attached request that \<open>popReq\<close> hands back, a block
  address, a physical address once known, a fall-through flag and a fault.
\<close>

datatype FTState =
    Initial | TranslationInProgress | TranslationReady | TranslationFailed
  | PrefetchInProgress | ReadyToFetch

record FetchTarget =
  ftState :: FTState
  ftReq :: "req_ptr option"
  ftStartAddress :: Addr
  ftBlkAddr :: Addr
  ftPaddr :: "Addr option"
  ftFallThrough :: bool
  ftFault :: Fault
  ftValid :: bool

text \<open>Calls to collaborators that only they observe, in the order the stage makes them.\<close>

datatype ext_call =
    DecoderReset ThreadID
  | RemoveInstsNotInROB ThreadID
  | RemoveInstsUntil InstSeqNum ThreadID
  | WakeCPU
  | ActivateStage
  | DeactivateStage
  | ActivityThisCycle
  | AddInst InstSeqNum
  | ScheduleProcessTrap ThreadID
  | WarnBadAddress Addr
  | FetchRequestSent "req_ptr option"
  | InstAccessComplete pkt_ptr
  | SendTimingReq pkt_ptr bool
  | TranslateTiming req_ptr ThreadID

record FetchStatGroup =
  predictedBranches :: int
  cycles :: int
  squashCycles :: int
  tlbCycles :: int
  ftqStallCycles :: int
  idleCycles :: int
  blockedCycles :: int
  miscStallCycles :: int
  pendingDrainCycles :: int
  noActiveThreadStallCycles :: int
  pendingTrapStallCycles :: int
  pendingQuiesceStallCycles :: int
  icacheWaitRetryStallCycles :: int
  cacheLines :: int
  icacheSquashes :: int
  tlbSquashes :: int
  nisnDist :: "nat list"
  instrAccessLatency :: "nat list"
  translationLatency :: "nat list"
  memReqInFlight :: "nat list"
  ftReadyToFetch :: int
  ftPrefetchInProgress :: int
  ftTranslationInProgress :: int
  ftTranslationReady :: int
  ftTranslationFailed :: int
  ftCrossCacheBlock :: int
  ftCrossCacheBlockNotNext :: int
  demandHit :: int
  demandMiss :: int
  pfIssued :: int
  pfReceived :: int
  pfLate :: int
  pfInCache :: int
  pfSquashed :: int
  pfLimitReached :: int
  pfTranslationLimitReached :: int

subsection \<open>The stage and the collaborators it reaches\<close>

text \<open>
  The first group of fields are the members of \<open>Fetch\<close>, under their own names
  (\<open>stageStatus\<close> is \<open>_status\<close>; \<open>stallsDecode\<close> and \<open>stallsDrain\<close> are the two members of
  \<open>stalls[tid]\<close>; \<open>processTrapEvent\<close> holds the arguments of the event while it is
  scheduled).  The counters \<open>outstandingPrefetches\<close> and \<open>outstandingTranslations\<close> and their
  ceilings are declared in fetch.hh, which is not among the sources; they are integers
  here, as the spec compares them with 0.  \<open>cacheBlkSize\<close>, \<open>fetchBufferSize\<close> and
  \<open>fetchBufferMask\<close> have the width of an address.

  The second group is what the stage reads and writes in its collaborators: the request,
  packet and fetch-target objects, the fetch-target queue of each thread, the CPU's list of
  active threads and its flags, the counts the IEW stage reports, the translations the MMU
  has accepted and not yet answered, and the packets the cache has accepted and not yet
  answered.
\<close>

record Fetch =
  fetchPolicy :: SMTFetchPolicy
  outstandingPrefetches :: int
  maxOutstandingPrefetches :: int
  outstandingTranslations :: int
  maxOutstandingTranslations :: int
  decoupledFrontEnd :: bool
  fetchWidth :: nat
  decodeWidth :: nat
  retryPkt :: "pkt_ptr option"
  retryTid :: ThreadID
  cacheBlkSize :: Addr
  fetchBufferSize :: Addr
  fetchBufferMask :: Addr
  fetchQueueSize :: nat
  numThreads :: ThreadID
  numFetchingThreads :: ThreadID
  instSize :: nat
  fetchStatus :: "ThreadID \<Rightarrow> ThreadStatus"
  pc :: "ThreadID \<Rightarrow> PCState"
  fetchOffset :: "ThreadID \<Rightarrow> Addr"
  macroop :: "ThreadID \<Rightarrow> StaticInst option"
  delayedCommit :: "ThreadID \<Rightarrow> bool"
  memReq :: "ThreadID \<Rightarrow> req_ptr option"
  stallsDecode :: "ThreadID \<Rightarrow> bool"
  stallsDrain :: "ThreadID \<Rightarrow> bool"
  fetchBuffer :: "ThreadID \<Rightarrow> 8 word list"
  fetchBufferPC :: "ThreadID \<Rightarrow> Addr"
  fetchBufferValid :: "ThreadID \<Rightarrow> bool"
  lastIcacheStall :: "ThreadID \<Rightarrow> Tick"
  issuePipelinedIfetch :: "ThreadID \<Rightarrow> bool"
  fetchQueue :: "ThreadID \<Rightarrow> DynInst list"
  cacheBlocked :: bool
  interruptPending :: bool
  fetchesInProgress :: "Addr set"
  priorityList :: "ThreadID list"
  stageStatus :: FetchStatus
  numInst :: nat
  wroteToTimeBuffer :: bool
  threadFetched :: ThreadID
  processTrapEvent :: "(ThreadID \<times> Fault \<times> req_ptr option) option"
  fetchStats :: FetchStatGroup
  reqStore :: "req_ptr \<Rightarrow> Request"
  nextReq :: req_ptr
  pktStore :: "pkt_ptr \<Rightarrow> Packet option"
  nextPkt :: pkt_ptr
  ftStore :: "ft_ptr \<Rightarrow> FetchTarget"
  nextFt :: ft_ptr
  ftq :: "ThreadID \<Rightarrow> ft_ptr list"
  ftqValid :: "ThreadID \<Rightarrow> bool"
  activeThreads :: "ThreadID list"
  cpuSwitchedOut :: bool
  cpuDraining :: bool
  cpuInstSeq :: InstSeqNum
  cpuPcState :: "ThreadID \<Rightarrow> PCState"
  cpuIcacheStallCycles :: "ThreadID \<Rightarrow> int"
  cpuInstRequestorId :: nat
  cpuTaskId :: nat
  cpuContextId :: "ThreadID \<Rightarrow> int"
  cpuContextToThread :: "int \<Rightarrow> ThreadID"
  isMemAddr :: "Addr \<Rightarrow> bool"
  nopStaticInst :: StaticInst
  iqCount :: "ThreadID \<Rightarrow> nat"
  ldstqCount :: "ThreadID \<Rightarrow> nat"
  curTick :: Tick
  mmuPending :: "(req_ptr \<times> ThreadID \<times> ft_ptr option) list"
  icacheInFlight :: "pkt_ptr list"
  extLog :: "ext_call list"

subsection \<open>Squashing\<close>

text \<open>
  \<open>Fetch::doSquash\<close>.  The retry packet is deleted when this thread owns it; the assertion
  \<open>assert(cacheBlocked)\<close> guards that branch.
\<close>

definition doSquash :: "PCState \<Rightarrow> DynInst option \<Rightarrow> ThreadID \<Rightarrow> Fetch \<Rightarrow> error + Fetch" where
  "doSquash new_pc squashInst tid s =
    (let s1 = s\<lparr>pc := (pc s)(tid := new_pc),
                fetchOffset := (fetchOffset s)(tid := 0),
                macroop := (macroop s)(tid :=
                  (case squashInst of
                     None \<Rightarrow> None
                   | Some i \<Rightarrow>
                       if instAddr (instPC i) = instAddr new_pc
                          \<and> \<not> siIsLastMicroop (instStaticInst i)
                       then instMacroop i else None)),
                extLog := extLog s @ [DecoderReset tid]\<rparr>;
         s2 = (if fetchStatus s1 tid = IcacheWaitResponse
               then s1\<lparr>memReq := (memReq s1)(tid := None)\<rparr>
               else if fetchStatus s1 tid = ItlbWait
               then s1\<lparr>memReq := (memReq s1)(tid := None)\<rparr>
               else s1)
     in if retryTid s2 = tid \<and> \<not> cacheBlocked s2
        then Inl (AssertionFailed ''cacheBlocked'')
        else
          (let s3 = (if retryTid s2 = tid
                     then s2\<lparr>pktStore := (case retryPkt s2 of
                                             None \<Rightarrow> pktStore s2
                                           | Some p \<Rightarrow> (pktStore s2)(p := None)),
                             retryPkt := None,
                             retryTid := InvalidThreadID\<rparr>
                     else s2);
               s4 = s3\<lparr>fetchStatus := (fetchStatus s3)(tid := Squashing),
                       fetchQueue := (fetchQueue s3)(tid := []),
                       delayedCommit := (delayedCommit s3)(tid := True),
                       fetchStats := (fetchStats s3)
                         \<lparr>pfSquashed := pfSquashed (fetchStats s3) + outstandingPrefetches s3\<rparr>,
                       outstandingPrefetches := 0\<rparr>
           in Inr (s4\<lparr>fetchStats := (fetchStats s4)
                        \<lparr>squashCycles := squashCycles (fetchStats s4) + 1\<rparr>\<rparr>)))"

text \<open>\<open>Fetch::squash\<close>, the squash that commit orders.\<close>

definition squash :: "PCState \<Rightarrow> InstSeqNum \<Rightarrow> DynInst option \<Rightarrow> ThreadID \<Rightarrow> Fetch \<Rightarrow> error + Fetch" where
  "squash new_pc seq_num squashInst tid s =
    (case doSquash new_pc squashInst tid s of
       Inl e \<Rightarrow> Inl e
     | Inr s1 \<Rightarrow> Inr (s1\<lparr>extLog := extLog s1 @ [RemoveInstsNotInROB tid]\<rparr>))"

text \<open>\<open>Fetch::squashFromDecode\<close>, the squash that decode orders.\<close>

definition squashFromDecode :: "PCState \<Rightarrow> DynInst option \<Rightarrow> InstSeqNum \<Rightarrow> ThreadID \<Rightarrow> Fetch \<Rightarrow> error + Fetch" where
  "squashFromDecode new_pc squashInst seq_num tid s =
    (case doSquash new_pc squashInst tid s of
       Inl e \<Rightarrow> Inl e
     | Inr s1 \<Rightarrow> Inr (s1\<lparr>extLog := extLog s1 @ [RemoveInstsUntil seq_num tid]\<rparr>))"

subsection \<open>Members and collaborators declared outside fetch.cc\<close>

text \<open>
  Modelled from the spec: \<open>fetchBufferAlignPC\<close>, \<open>cacheBlockAligned\<close> and \<open>checkInterrupt\<close> are
  inline members declared in fetch.hh, which is not among the sources.  The spec aligns an
  address down to the fetch buffer, respectively to the cache block, and stalls while an
  interrupt is pending.
\<close>

definition fetchBufferAlignPC :: "Fetch \<Rightarrow> Addr \<Rightarrow> Addr" where
  "fetchBufferAlignPC s addr = addr AND NOT (fetchBufferMask s)"

definition cacheBlockAligned :: "Fetch \<Rightarrow> Addr \<Rightarrow> Addr" where
  "cacheBlockAligned s addr = addr AND NOT (cacheBlkSize s - 1)"

definition checkInterrupt :: "Fetch \<Rightarrow> Addr \<Rightarrow> bool" where
  "checkInterrupt s pc_addr = interruptPending s"

text \<open>
  Modelled from the spec: \<open>Request::getPaddr\<close> is declared in mem/request.hh, which is not
  among the sources.  The spec gives a request its physical address when the MMU has
  translated it or \<open>makeRequest\<close> has taken it from a fetch target; reading the address of
  a request that has none is an assertion failure here.
\<close>

definition getPaddr :: "Request \<Rightarrow> error + Addr" where
  "getPaddr r = (case reqPaddr r of
                   None \<Rightarrow> Inl (AssertionFailed ''hasPaddr()'')
                 | Some a \<Rightarrow> Inr a)"

text \<open>Modelled from the spec: \<open>floorLog2\<close> (base/intmath.hh), the position of the top bit.\<close>

fun floorLog2 :: "nat \<Rightarrow> nat" where
  "floorLog2 n = (if n < 2 then 0 else Suc (floorLog2 (n div 2)))"

declare floorLog2.simps [simp del]

text \<open>
  Modelled from the spec: the operations of a fetch target.  \<open>popReq\<close> hands the attached
  request back and detaches it; \<open>markReady\<close> moves the target to ReadyToFetch;
  \<open>prefetchIssued\<close> moves it to PrefetchInProgress; \<open>ftStartTranslation\<close> attaches a request
  and moves it to TranslationInProgress; \<open>ftFinishTranslation\<close> records the outcome of the
  translation.  The flag of \<open>ftFinishTranslation\<close> tells a prefetch from a demand; the spec
  gives it no effect on the state.
\<close>

definition popReq :: "FetchTarget \<Rightarrow> req_ptr option \<times> FetchTarget" where
  "popReq ft = (ftReq ft, ft\<lparr>ftReq := None\<rparr>)"

definition markReady :: "FetchTarget \<Rightarrow> FetchTarget" where
  "markReady ft = ft\<lparr>ftState := ReadyToFetch\<rparr>"

definition prefetchIssued :: "FetchTarget \<Rightarrow> FetchTarget" where
  "prefetchIssued ft = ft\<lparr>ftState := PrefetchInProgress\<rparr>"

definition ftStartTranslation :: "FetchTarget \<Rightarrow> req_ptr \<Rightarrow> FetchTarget" where
  "ftStartTranslation ft req = ft\<lparr>ftReq := Some req, ftState := TranslationInProgress\<rparr>"

definition ftFinishTranslation :: "FetchTarget \<Rightarrow> Fault \<Rightarrow> Request \<Rightarrow> bool \<Rightarrow> FetchTarget" where
  "ftFinishTranslation ft fault req prefetch =
     ft\<lparr>ftState := (if ftState ft = TranslationInProgress
                     then (if fault = NoFault then TranslationReady else TranslationFailed)
                     else ftState ft),
        ftFault := fault,
        ftPaddr := (if fault = NoFault then reqPaddr req else ftPaddr ft)\<rparr>"

definition requiresTranslation :: "FetchTarget \<Rightarrow> bool" where
  "requiresTranslation ft = (ftState ft = Initial)"

definition translationReady :: "FetchTarget \<Rightarrow> bool" where
  "translationReady ft = (ftState ft = TranslationReady)"

text \<open>
  Modelled from the spec: the queue operations, which are declared in cpu/o3/ftq.hh, not
  among the sources.  \<open>readHead\<close> and \<open>readNextHead\<close> give the first and the second entry,
  null when there is none; \<open>findAfterHead\<close> gives the first entry after the head that
  satisfies the predicate, null when there is none.  The spec has \<open>processFTQ\<close> find with it
  ``the first FTQ entry after the head'', and \<open>processFTQ\<close> returns before it calls it when
  the queue has fewer than two entries, under the comment that there must be ``at least
  one other fetch target apart from the head''.
\<close>

definition readHead :: "Fetch \<Rightarrow> ThreadID \<Rightarrow> ft_ptr option" where
  "readHead s tid = (case ftq s tid of [] \<Rightarrow> None | h # _ \<Rightarrow> Some h)"

definition readNextHead :: "Fetch \<Rightarrow> ThreadID \<Rightarrow> ft_ptr option" where
  "readNextHead s tid = (case ftq s tid of h # n # _ \<Rightarrow> Some n | _ \<Rightarrow> None)"

definition findAfterHead :: "Fetch \<Rightarrow> ThreadID \<Rightarrow> (FetchTarget \<Rightarrow> bool) \<Rightarrow> ft_ptr option" where
  "findAfterHead s tid P = find (\<lambda>f. P (ftStore s f)) (tl (ftq s tid))"

subsection \<open>Stage status\<close>

text \<open>\<open>Fetch::checkStall\<close>.\<close>

definition checkStall :: "ThreadID \<Rightarrow> Fetch \<Rightarrow> error + bool" where
  "checkStall tid s =
    (if stallsDrain s tid
     then (if \<not> cpuDraining s then Inl (AssertionFailed ''cpu->isDraining()'') else Inr True)
     else Inr False)"

text \<open>\<open>Fetch::switchToActive\<close>.\<close>

definition switchToActive :: "Fetch \<Rightarrow> Fetch" where
  "switchToActive s =
    (if stageStatus s = Inactive
     then s\<lparr>extLog := extLog s @ [ActivateStage], stageStatus := Active\<rparr>
     else s)"

text \<open>\<open>Fetch::updateFetchStatus\<close>; the caller stores the status it returns.\<close>

definition updateFetchStatus :: "Fetch \<Rightarrow> FetchStatus \<times> Fetch" where
  "updateFetchStatus s =
    (if list_ex (\<lambda>tid. fetchStatus s tid = Running
                      \<or> fetchStatus s tid = Squashing
                      \<or> fetchStatus s tid = IcacheAccessComplete) (activeThreads s)
     then (Active, if stageStatus s = Inactive
                   then s\<lparr>extLog := extLog s @ [ActivateStage]\<rparr> else s)
     else (Inactive, if stageStatus s = Active
                     then s\<lparr>extLog := extLog s @ [DeactivateStage]\<rparr> else s))"

subsection \<open>Cache access\<close>

text \<open>
  \<open>Fetch::performCacheAccess\<close>.  \<open>accept\<close> is what \<open>icachePort.sendTimingReq\<close> returns.  A
  packet that the cache accepts is in flight until its response.
\<close>

definition performCacheAccess ::
  "Addr \<Rightarrow> ThreadID \<Rightarrow> req_ptr \<Rightarrow> bool \<Rightarrow> bool \<Rightarrow> Fetch \<Rightarrow> error + (bool \<times> Fetch)" where
  "performCacheAccess vaddr tid mem_req prefetch accept s =
    (case getPaddr (reqStore s mem_req) of
       Inl e \<Rightarrow> Inl e
     | Inr paddr \<Rightarrow>
        if \<not> isMemAddr s paddr
        then Inr (False, s\<lparr>fetchStatus := (fetchStatus s)(tid := NoGoodAddr),
                           memReq := (memReq s)(tid := None),
                           extLog := extLog s @ [WarnBadAddress paddr]\<rparr>)
        else
          (let data_pkt = nextPkt s;
               s1 = s\<lparr>pktStore := (pktStore s)(data_pkt :=
                          Some \<lparr>pktReq = mem_req,
                                pktData = replicate (unat (fetchBufferSize s)) 0\<rparr>),
                       nextPkt := Suc data_pkt\<rparr>
           in if \<not> prefetch \<and> vaddr \<noteq> reqVaddr (reqStore s1 mem_req)
              then Inl (AssertionFailed ''vaddr == mem_req->getVaddr()'')
              else
                (let s2 = (if \<not> prefetch
                           then s1\<lparr>fetchBufferPC := (fetchBufferPC s1)(tid := vaddr),
                                   fetchBufferValid := (fetchBufferValid s1)(tid := False),
                                   fetchStats := (fetchStats s1)
                                     \<lparr>cacheLines := cacheLines (fetchStats s1) + 1\<rparr>\<rparr>
                           else s1);
                     s3 = s2\<lparr>extLog := extLog s2 @ [SendTimingReq data_pkt accept]\<rparr>
                 in if \<not> accept
                    then
                      (if retryPkt s3 \<noteq> None
                       then Inl (AssertionFailed ''retryPkt == NULL'')
                       else if retryTid s3 \<noteq> InvalidThreadID
                       then Inl (AssertionFailed ''retryTid == InvalidThreadID'')
                       else if prefetch
                       then Inr (False, s3\<lparr>pktStore := (pktStore s3)(data_pkt := None)\<rparr>)
                       else Inr (False, s3\<lparr>fetchStatus := (fetchStatus s3)(tid := IcacheWaitRetry),
                                           retryPkt := Some data_pkt,
                                           retryTid := tid,
                                           cacheBlocked := True\<rparr>))
                    else
                      (let s4 = s3\<lparr>icacheInFlight := icacheInFlight s3 @ [data_pkt],
                                   fetchesInProgress := insert paddr (fetchesInProgress s3)\<rparr>;
                           s5 = s4\<lparr>fetchStats := (fetchStats s4)
                                     \<lparr>memReqInFlight := memReqInFlight (fetchStats s4)
                                        @ [card (fetchesInProgress s4)]\<rparr>\<rparr>
                       in if \<not> prefetch
                          then Inr (True, s5\<lparr>lastIcacheStall := (lastIcacheStall s5)(tid := curTick s5),
                                             fetchStatus := (fetchStatus s5)(tid := IcacheWaitResponse),
                                             extLog := extLog s5 @ [FetchRequestSent (Some mem_req)]\<rparr>)
                          else Inr (True, s5)))))"

subsection \<open>Traps\<close>

text \<open>
  \<open>Fetch::buildInst\<close>.  The sequence number comes from the CPU's counter; the instruction
  is appended to the thread's fetch queue.
\<close>

definition buildInst ::
  "ThreadID \<Rightarrow> StaticInst \<Rightarrow> StaticInst option \<Rightarrow> PCState \<Rightarrow> PCState \<Rightarrow> bool \<Rightarrow> Fetch
     \<Rightarrow> error + (DynInst \<times> Fetch)" where
  "buildInst tid staticInst curMacroop this_pc next_pc trace s =
    (let seq = cpuInstSeq s;
         instruction = \<lparr>seqNum = seq, instTid = tid, instStaticInst = staticInst,
                        instMacroop = curMacroop, instPC = this_pc, instPredTarg = next_pc,
                        instNotAnInst = False, instFault = NoFault\<rparr>;
         s1 = s\<lparr>cpuInstSeq := Suc seq, extLog := extLog s @ [AddInst seq]\<rparr>
     in if \<not> numInst s1 < fetchWidth s1
        then Inl (AssertionFailed ''numInst < fetchWidth'')
        else
          (let s2 = s1\<lparr>fetchQueue := (fetchQueue s1)(tid := fetchQueue s1 tid @ [instruction])\<rparr>
           in if \<not> length (fetchQueue s2 tid) \<le> fetchQueueSize s2
              then Inl (AssertionFailed ''fetchQueue[tid].size() <= fetchQueueSize'')
              else Inr (instruction,
                        s2\<lparr>delayedCommit := (delayedCommit s2)
                                               (tid := siIsDelayedCommit staticInst)\<rparr>)))"

text \<open>
  \<open>Fetch::processTrap\<close>.  The nop that carries the fault is the object that \<open>buildInst\<close> has
  just queued, so the writes to it show in the last entry of the fetch queue.
\<close>

definition processTrap :: "ThreadID \<Rightarrow> Fault \<Rightarrow> req_ptr option \<Rightarrow> Fetch \<Rightarrow> error + Fetch" where
  "processTrap tid fault mem_req s =
    (if \<not> numInst s < fetchWidth s \<or> \<not> length (fetchQueue s tid) < fetchQueueSize s
     then
       (if processTrapEvent s \<noteq> None
        then Inl (AssertionFailed ''!processTrapEvent.scheduled()'')
        else Inr (s\<lparr>processTrapEvent := Some (tid, fault, mem_req),
                    extLog := extLog s @ [ScheduleProcessTrap tid]\<rparr>))
     else
       (let s1 = s\<lparr>memReq := (memReq s)(tid := None)\<rparr>;
            fetch_pc = pc s1 tid
        in case buildInst tid (nopStaticInst s1) None fetch_pc fetch_pc False s1 of
             Inl e \<Rightarrow> Inl e
           | Inr (instruction, s2) \<Rightarrow>
               (let carrier = instruction\<lparr>instNotAnInst := True,
                                          instPredTarg := fetch_pc,
                                          instFault := fault\<rparr>
                in Inr (s2\<lparr>fetchQueue := (fetchQueue s2)
                                (tid := butlast (fetchQueue s2 tid) @ [carrier]),
                           wroteToTimeBuffer := True,
                           extLog := extLog s2 @ [ActivityThisCycle],
                           fetchStatus := (fetchStatus s2)(tid := TrapPending)\<rparr>))))"

subsection \<open>Translation\<close>

text \<open>
  What the MMU and the cache answer during one call of the stage: \<open>mmuSync\<close> is the fault,
  the physical address and the latency of a translation that the MMU completes inside
  \<open>translateTiming\<close>, or \<open>None\<close> when it completes later; \<open>icacheAccept\<close> is what
  \<open>sendTimingReq\<close> returns.
\<close>

record Oracle =
  mmuSync :: "(Fault \<times> Addr \<times> nat) option"
  icacheAccept :: bool

text \<open>
  The block \<open>if (ft && ft->isValid())\<close> of \<open>Fetch::finishTranslation\<close>, which the function
  has twice, for a prefetch and for a demand: the fetch target records the outcome of the
  translation and the latency \<open>lat\<close> that it reports is sampled.  The result is \<open>None\<close> when
  the fetch target is null or not valid.
\<close>

definition recordTranslation ::
  "Fault \<Rightarrow> req_ptr \<Rightarrow> ft_ptr option \<Rightarrow> nat \<Rightarrow> bool \<Rightarrow> Fetch \<Rightarrow> Fetch option" where
  "recordTranslation fault mem_req ft lat prefetch s =
    (case ft of
       None \<Rightarrow> None
     | Some f \<Rightarrow>
         if ftValid (ftStore s f)
         then Some (s\<lparr>ftStore := (ftStore s)
                         (f := ftFinishTranslation (ftStore s f) fault
                                 (reqStore s mem_req) prefetch),
                       fetchStats := (fetchStats s)
                         \<lparr>translationLatency := translationLatency (fetchStats s)
                            @ [if lat \<noteq> 0 then floorLog2 lat else 0]\<rparr>\<rparr>)
         else None)"

text \<open>\<open>Fetch::finishTranslation\<close>.\<close>

definition finishTranslation ::
  "Fault \<Rightarrow> req_ptr \<Rightarrow> ft_ptr option \<Rightarrow> nat \<Rightarrow> bool \<Rightarrow> Fetch \<Rightarrow> error + Fetch" where
  "finishTranslation fault mem_req ft lat accept s =
    (let tid = cpuContextToThread s (reqContextId (reqStore s mem_req));
         fetchBufferBlockPC = reqVaddr (reqStore s mem_req)
     in if cpuSwitchedOut s
        then Inl (AssertionFailed ''!cpu->switchedOut()'')
        else
          (let s1 = s\<lparr>extLog := extLog s @ [WakeCPU],
                      outstandingTranslations := outstandingTranslations s - 1\<rparr>
           in if fetchStatus s1 tid \<noteq> ItlbWait
                 \<or> (case memReq s1 tid of
                       None \<Rightarrow> True
                     | Some m \<Rightarrow> mem_req \<noteq> m
                         \<or> reqVaddr (reqStore s1 mem_req) \<noteq> reqVaddr (reqStore s1 m))
              then
                (case recordTranslation fault mem_req ft lat True s1 of
                   Some s2 \<Rightarrow> Inr s2
                 | None \<Rightarrow> Inr (s1\<lparr>fetchStats := (fetchStats s1)
                                    \<lparr>tlbSquashes := tlbSquashes (fetchStats s1) + 1\<rparr>\<rparr>))
              else
                (let s2 = (case recordTranslation fault mem_req ft lat False s1 of
                             Some t \<Rightarrow> t
                           | None \<Rightarrow> s1);
                     r = (if fault = NoFault
                          then (case performCacheAccess fetchBufferBlockPC tid mem_req False
                                       accept s2 of
                                  Inl e \<Rightarrow> Inl e
                                | Inr (sent, t) \<Rightarrow> Inr t)
                          else processTrap tid fault (Some mem_req) s2)
                 in case r of
                      Inl e \<Rightarrow> Inl e
                    | Inr s3 \<Rightarrow>
                        (case updateFetchStatus s3 of
                           (st, s4) \<Rightarrow> Inr (s4\<lparr>stageStatus := st\<rparr>)))))"

text \<open>
  Modelled from the spec: the MMU writes the physical address into the request before it
  calls back, when the translation did not fault.
\<close>

definition mmuTranslated :: "Fault \<Rightarrow> Addr \<Rightarrow> req_ptr \<Rightarrow> Fetch \<Rightarrow> Fetch" where
  "mmuTranslated fault paddr req s =
    (if fault = NoFault
     then s\<lparr>reqStore := (reqStore s)(req := (reqStore s req)\<lparr>reqPaddr := Some paddr\<rparr>)\<rparr>
     else s)"

text \<open>
  \<open>Fetch::startTranslation\<close>.  The counter is incremented before \<open>translateTiming\<close>; the MMU
  either calls \<open>finishTranslation\<close> back at once or keeps the translation pending.
\<close>

definition startTranslation ::
  "req_ptr \<Rightarrow> ThreadID \<Rightarrow> ft_ptr option \<Rightarrow> Oracle \<Rightarrow> Fetch \<Rightarrow> error + Fetch" where
  "startTranslation mem_req tid ft orc s =
    (let s1 = (case ft of
                 None \<Rightarrow> s
               | Some f \<Rightarrow> s\<lparr>ftStore := (ftStore s)
                               (f := ftStartTranslation (ftStore s f) mem_req)\<rparr>);
         s2 = s1\<lparr>outstandingTranslations := outstandingTranslations s1 + 1,
                 extLog := extLog s1 @ [TranslateTiming mem_req tid]\<rparr>
     in case mmuSync orc of
          None \<Rightarrow> Inr (s2\<lparr>mmuPending := mmuPending s2 @ [(mem_req, tid, ft)]\<rparr>)
        | Some (fault, paddr, lat) \<Rightarrow>
            finishTranslation fault mem_req ft lat (icacheAccept orc)
              (mmuTranslated fault paddr mem_req s2))"

subsection \<open>Building requests and fetching a line\<close>

text \<open>\<open>Fetch::makeRequest\<close>; a new request takes the next free address of the store.\<close>

definition makeRequest ::
  "Addr \<Rightarrow> ThreadID \<Rightarrow> Addr \<Rightarrow> ft_ptr option \<Rightarrow> Fetch \<Rightarrow> req_ptr \<times> Fetch" where
  "makeRequest vaddr tid pc_addr ft s =
    (let (req0, s1) =
           (case ft of
              None \<Rightarrow> (None, s)
            | Some f \<Rightarrow>
                (case ftReq (ftStore s f) of
                   None \<Rightarrow> (None, s)
                 | Some r \<Rightarrow>
                     if reqVaddr (reqStore s r) = vaddr
                     then (fst (popReq (ftStore s f)),
                           s\<lparr>ftStore := (ftStore s)
                                (f := markReady (snd (popReq (ftStore s f))))\<rparr>)
                     else (None, s)));
         (req, s2) =
           (case req0 of
              Some r \<Rightarrow> (r, s1)
            | None \<Rightarrow>
                (nextReq s1,
                 s1\<lparr>reqStore := (reqStore s1)(nextReq s1 :=
                       \<lparr>reqVaddr = vaddr, reqSize = fetchBufferSize s1, reqInstFetch = True,
                        reqRequestorId = cpuInstRequestorId s1, reqPC = pc_addr,
                        reqContextId = cpuContextId s1 tid, reqTaskId = cpuTaskId s1,
                        reqPaddr = None, reqAccessDepth = 0\<rparr>),
                    nextReq := Suc (nextReq s1)\<rparr>))
     in case ft of
          None \<Rightarrow> (req, s2)
        | Some f \<Rightarrow>
            (case ftPaddr (ftStore s2 f) of
               None \<Rightarrow> (req, s2)
             | Some ft_paddr \<Rightarrow>
                 if ftBlkAddr (ftStore s2 f) = cacheBlockAligned s2 vaddr
                 then
                   (let cl_pa = (ft_paddr AND NOT (cacheBlkSize s2 - 1))
                                + (vaddr AND (cacheBlkSize s2 - 1))
                    in (req, s2\<lparr>reqStore := (reqStore s2)
                                  (req := (reqStore s2 req)\<lparr>reqPaddr := Some cl_pa\<rparr>)\<rparr>))
                 else (req, s2)))"

text \<open>
  The first part of \<open>Fetch::fetchCacheLine\<close> with a decoupled front-end: the choice between
  the head of the queue and the entry after it.
\<close>

definition selectFetchTarget :: "Addr \<Rightarrow> ThreadID \<Rightarrow> Fetch \<Rightarrow> error + (ft_ptr option \<times> Fetch)" where
  "selectFetchTarget vaddr tid s =
    (let cacheBlock = cacheBlockAligned s vaddr
     in case readHead s tid of
          None \<Rightarrow> Inl (AssertionFailed ''ft'')
        | Some h \<Rightarrow>
            if ftBlkAddr (ftStore s h) \<noteq> cacheBlock
            then
              (let s1 = s\<lparr>fetchStats := (fetchStats s)
                            \<lparr>ftCrossCacheBlock := ftCrossCacheBlock (fetchStats s) + 1\<rparr>\<rparr>
               in if ftFallThrough (ftStore s1 h)
                  then
                    (case readNextHead s1 tid of
                       None \<Rightarrow> Inr (None, s1)
                     | Some n \<Rightarrow>
                         if ftBlkAddr (ftStore s1 n) \<noteq> cacheBlock
                         then Inr (None, s1\<lparr>fetchStats := (fetchStats s1)
                                 \<lparr>ftCrossCacheBlockNotNext :=
                                    ftCrossCacheBlockNotNext (fetchStats s1) + 1\<rparr>\<rparr>)
                         else Inr (Some n, s1))
                  else Inr (None, s1))
            else Inr (Some h, s))"

text \<open>
  The switch of \<open>Fetch::fetchCacheLine\<close> on the state of the fetch target; the flag it
  returns is \<open>done\<close>.
\<close>

definition fetchTargetSwitch ::
  "Addr \<Rightarrow> ThreadID \<Rightarrow> ft_ptr \<Rightarrow> Fetch \<Rightarrow> error + (bool \<times> Fetch)" where
  "fetchTargetSwitch fetchBufferBlockPC tid f s =
    (case ftState (ftStore s f) of
       ReadyToFetch \<Rightarrow>
         Inr (False, s\<lparr>fetchStats := (fetchStats s)
                        \<lparr>ftReadyToFetch := ftReadyToFetch (fetchStats s) + 1\<rparr>\<rparr>)
     | PrefetchInProgress \<Rightarrow>
         (let popped = fst (popReq (ftStore s f))
          in Inr (True, s\<lparr>fetchStats := (fetchStats s)
                           \<lparr>ftPrefetchInProgress := ftPrefetchInProgress (fetchStats s) + 1,
                            pfLate := pfLate (fetchStats s) + 1\<rparr>,
                          outstandingPrefetches := outstandingPrefetches s - 1,
                          lastIcacheStall := (lastIcacheStall s)(tid := curTick s),
                          fetchStatus := (fetchStatus s)(tid := IcacheWaitResponse),
                          fetchBufferPC := (fetchBufferPC s)(tid := fetchBufferBlockPC),
                          fetchBufferValid := (fetchBufferValid s)(tid := False),
                          memReq := (memReq s)(tid := popped),
                          ftStore := (ftStore s)(f := markReady (snd (popReq (ftStore s f)))),
                          extLog := extLog s @ [FetchRequestSent popped]\<rparr>))
     | TranslationInProgress \<Rightarrow>
         Inr (True, s\<lparr>fetchStats := (fetchStats s)
                       \<lparr>ftTranslationInProgress := ftTranslationInProgress (fetchStats s) + 1\<rparr>,
                      fetchStatus := (fetchStatus s)(tid := ItlbWait),
                      memReq := (memReq s)(tid := fst (popReq (ftStore s f))),
                      ftStore := (ftStore s)(f := markReady (snd (popReq (ftStore s f))))\<rparr>)
     | TranslationFailed \<Rightarrow>
         (case processTrap tid (ftFault (ftStore s f)) (ftReq (ftStore s f))
                 (s\<lparr>fetchStats := (fetchStats s)
                      \<lparr>ftTranslationFailed := ftTranslationFailed (fetchStats s) + 1\<rparr>\<rparr>) of
            Inl e \<Rightarrow> Inl e
          | Inr s1 \<Rightarrow> Inr (True, s1))
     | TranslationReady \<Rightarrow>
         Inr (False, s\<lparr>fetchStats := (fetchStats s)
                        \<lparr>ftTranslationReady := ftTranslationReady (fetchStats s) + 1\<rparr>\<rparr>)
     | Initial \<Rightarrow> Inr (False, s))"

text \<open>
  The end of \<open>Fetch::fetchCacheLine\<close>, from the comment \<open>Create a new request for the fetch
  buffer block\<close> on: the request is built and stored in \<open>memReq[tid]\<close>; with a physical
  address it goes to the cache, without one to the MMU.
\<close>

definition fetchCacheLine_request ::
  "Addr \<Rightarrow> ThreadID \<Rightarrow> Addr \<Rightarrow> ft_ptr option \<Rightarrow> Oracle \<Rightarrow> Fetch \<Rightarrow> error + (bool \<times> Fetch)" where
  "fetchCacheLine_request fetchBufferBlockPC tid pc_addr ft orc s =
    (case makeRequest fetchBufferBlockPC tid pc_addr ft s of
       (r, s1) \<Rightarrow>
         (let s2 = s1\<lparr>memReq := (memReq s1)(tid := Some r)\<rparr>
          in if reqPaddr (reqStore s2 r) \<noteq> None
             then
               (case performCacheAccess fetchBufferBlockPC tid r False (icacheAccept orc) s2 of
                  Inl e \<Rightarrow> Inl e
                | Inr (sent, s3) \<Rightarrow> Inr (True, s3))
             else
               (case startTranslation r tid ft orc
                       (s2\<lparr>fetchStatus := (fetchStatus s2)(tid := ItlbWait)\<rparr>) of
                  Inl e \<Rightarrow> Inl e
                | Inr s3 \<Rightarrow> Inr (True, s3))))"

text \<open>
  \<open>Fetch::fetchCacheLine\<close>.  \<open>ft\<close> is the argument of the same name, which the callers leave
  null and the decoupled front-end overwrites.
\<close>

definition fetchCacheLine ::
  "Addr \<Rightarrow> ThreadID \<Rightarrow> Addr \<Rightarrow> ft_ptr option \<Rightarrow> Oracle \<Rightarrow> Fetch \<Rightarrow> error + (bool \<times> Fetch)" where
  "fetchCacheLine vaddr tid pc_addr ft orc s =
    (if cpuSwitchedOut s then Inl (AssertionFailed ''!cpu->switchedOut()'')
     else if cacheBlocked s then Inr (False, s)
     else if checkInterrupt s pc_addr \<and> \<not> delayedCommit s tid then Inr (False, s)
     else
       (let fetchBufferBlockPC = fetchBufferAlignPC s vaddr
        in case (if decoupledFrontEnd s then selectFetchTarget vaddr tid s else Inr (ft, s)) of
             Inl e \<Rightarrow> Inl e
           | Inr (ft1, s1) \<Rightarrow>
               (case (case ft1 of
                        None \<Rightarrow> Inr (False, s1)
                      | Some f \<Rightarrow> fetchTargetSwitch fetchBufferBlockPC tid f s1) of
                  Inl e \<Rightarrow> Inl e
                | Inr (done, s2) \<Rightarrow>
                    if done then Inr (True, s2)
                    else fetchCacheLine_request fetchBufferBlockPC tid pc_addr ft1 orc s2)))"

subsection \<open>Prefetching from the fetch-target queue\<close>

text \<open>
  \<open>Fetch::processFTQ\<close> is two blocks, which the source heads \<open>Prefetch Translations\<close> and
  \<open>Prefetch\<close>; each is a definition here and \<open>processFTQ\<close> runs one after the other behind
  the two early returns.
\<close>

definition processFTQ_translations :: "ThreadID \<Rightarrow> Oracle \<Rightarrow> Fetch \<Rightarrow> error + Fetch" where
  "processFTQ_translations tid orc s =
    (if outstandingTranslations s < maxOutstandingTranslations s
     then
       (case findAfterHead s tid requiresTranslation of
          None \<Rightarrow> Inr s
        | Some f \<Rightarrow>
            (let fetchBufferBlockPC = fetchBufferAlignPC s (ftStartAddress (ftStore s f))
             in case makeRequest fetchBufferBlockPC tid (ftStartAddress (ftStore s f)) None s of
                  (req, s1) \<Rightarrow> startTranslation req tid (Some f) orc s1))
     else Inr (s\<lparr>fetchStats := (fetchStats s)
                 \<lparr>pfTranslationLimitReached :=
                    pfTranslationLimitReached (fetchStats s) + 1\<rparr>\<rparr>))"

definition processFTQ_prefetch :: "ThreadID \<Rightarrow> Oracle \<Rightarrow> Fetch \<Rightarrow> error + Fetch" where
  "processFTQ_prefetch tid orc s =
    (if retryPkt s \<noteq> None \<or> cacheBlocked s then Inr s
     else if outstandingPrefetches s \<ge> maxOutstandingPrefetches s
     then Inr (s\<lparr>fetchStats := (fetchStats s)
                 \<lparr>pfLimitReached := pfLimitReached (fetchStats s) + 1\<rparr>\<rparr>)
     else
       (case findAfterHead s tid translationReady of
          None \<Rightarrow> Inr s
        | Some f \<Rightarrow>
            (case ftReq (ftStore s f) of
               None \<Rightarrow> Inl (AssertionFailed ''req != nullptr'')
             | Some req \<Rightarrow>
                 (case getPaddr (reqStore s req) of
                    Inl e \<Rightarrow> Inl e
                  | Inr paddr \<Rightarrow>
                      if paddr \<in> fetchesInProgress s
                      then Inr (s\<lparr>ftStore := (ftStore s)(f := markReady (ftStore s f))\<rparr>)
                      else
                        (case performCacheAccess (reqVaddr (reqStore s req)) tid req True
                                (icacheAccept orc) s of
                           Inl e \<Rightarrow> Inl e
                         | Inr (sent, s1) \<Rightarrow>
                             if sent
                             then Inr (s1\<lparr>ftStore := (ftStore s1)
                                            (f := prefetchIssued (ftStore s1 f)),
                                          outstandingPrefetches := outstandingPrefetches s1 + 1,
                                          fetchStats := (fetchStats s1)
                                            \<lparr>pfIssued := pfIssued (fetchStats s1) + 1\<rparr>\<rparr>)
                             else Inr s1)))))"

definition processFTQ :: "ThreadID \<Rightarrow> Oracle \<Rightarrow> Fetch \<Rightarrow> error + Fetch" where
  "processFTQ tid orc s =
    (if length (ftq s tid) < 2 then Inr s
     else if \<not> ftqValid s tid then Inr s
     else
       (case processFTQ_translations tid orc s of
          Inl e \<Rightarrow> Inl e
        | Inr s1 \<Rightarrow> processFTQ_prefetch tid orc s1))"

subsection \<open>Responses of the instruction cache\<close>

text \<open>\<open>Fetch::trySatisfyPrefetch\<close>; \<open>p\<close> is the packet and \<open>pkt\<close> what it points to.\<close>

definition trySatisfyPrefetch :: "ThreadID \<Rightarrow> pkt_ptr \<Rightarrow> Packet \<Rightarrow> Fetch \<Rightarrow> bool \<times> Fetch" where
  "trySatisfyPrefetch tid p pkt s =
    (if \<not> decoupledFrontEnd s then (False, s)
     else
       (case findAfterHead s tid (\<lambda>ft. ftReq ft = Some (pktReq pkt)) of
          None \<Rightarrow> (False, s)
        | Some f \<Rightarrow>
            (let s1 = s\<lparr>ftStore := (ftStore s)(f := markReady (ftStore s f)),
                        outstandingPrefetches := outstandingPrefetches s - 1,
                        fetchStats := (fetchStats s)
                          \<lparr>pfReceived := pfReceived (fetchStats s) + 1\<rparr>\<rparr>;
                 s2 = (if reqAccessDepth (reqStore s1 (pktReq pkt)) = 0
                       then s1\<lparr>fetchStats := (fetchStats s1)
                                 \<lparr>pfInCache := pfInCache (fetchStats s1) + 1\<rparr>\<rparr>
                       else s1)
             in (True, s2\<lparr>pktStore := (pktStore s2)(p := None)\<rparr>))))"

text \<open>
  \<open>Fetch::processCacheCompletion\<close>.  \<open>latency\<close> is the access latency of the request in
  cycles, which the CPU computes from the ticks of the request.
\<close>

definition processCacheCompletion :: "pkt_ptr \<Rightarrow> nat \<Rightarrow> Fetch \<Rightarrow> error + Fetch" where
  "processCacheCompletion p latency s =
    (case pktStore s p of
       None \<Rightarrow> Inl (Panic ''response for a deleted packet'')
     | Some pkt \<Rightarrow>
        (let tid = cpuContextToThread s (reqContextId (reqStore s (pktReq pkt)))
         in case getPaddr (reqStore s (pktReq pkt)) of
              Inl e \<Rightarrow> Inl e
            | Inr paddr \<Rightarrow>
               (let s1 = s\<lparr>fetchesInProgress := fetchesInProgress s - {paddr}\<rparr>
                in if fetchStatus s1 tid \<noteq> IcacheWaitResponse \<or> Some (pktReq pkt) \<noteq> memReq s1 tid
                   then
                     (case trySatisfyPrefetch tid p pkt s1 of
                        (satisfied, s2) \<Rightarrow>
                          if satisfied then Inr s2
                          else Inr (s2\<lparr>fetchStats := (fetchStats s2)
                                         \<lparr>icacheSquashes := icacheSquashes (fetchStats s2) + 1\<rparr>,
                                       pktStore := (pktStore s2)(p := None)\<rparr>))
                   else if cpuSwitchedOut s1
                   then Inl (AssertionFailed ''!cpu->switchedOut()'')
                   else
                     (let s2 = switchToActive
                                 (s1\<lparr>fetchBuffer := (fetchBuffer s1)
                                        (tid := take (unat (fetchBufferSize s1)) (pktData pkt)),
                                     fetchBufferValid := (fetchBufferValid s1)(tid := True),
                                     extLog := extLog s1 @ [WakeCPU]\<rparr>)
                      in case checkStall tid s2 of
                           Inl e \<Rightarrow> Inl e
                         | Inr stalled \<Rightarrow>
                            (let s3 = s2\<lparr>fetchStatus := (fetchStatus s2)
                                          (tid := if stalled then Blocked
                                                  else IcacheAccessComplete)\<rparr>;
                                 s4 = (if reqAccessDepth (reqStore s3 (pktReq pkt)) = 0
                                       then s3\<lparr>fetchStats := (fetchStats s3)
                                              \<lparr>demandHit := demandHit (fetchStats s3) + 1\<rparr>\<rparr>
                                       else s3\<lparr>fetchStats := (fetchStats s3)
                                              \<lparr>demandMiss := demandMiss (fetchStats s3) + 1\<rparr>\<rparr>);
                                 s5 = s4\<lparr>fetchStats := (fetchStats s4)
                                           \<lparr>instrAccessLatency := instrAccessLatency (fetchStats s4)
                                              @ [if latency > 0 then floorLog2 latency else 0]\<rparr>,
                                         extLog := extLog s4 @ [InstAccessComplete p]\<rparr>
                             in Inr (s5\<lparr>pktStore := (pktStore s5)(p := None),
                                         memReq := (memReq s5)(tid := None)\<rparr>))))))"

text \<open>\<open>Fetch::recvReqRetry\<close>; \<open>accept\<close> is what \<open>sendTimingReq\<close> returns for the retry packet.\<close>

definition recvReqRetry :: "bool \<Rightarrow> Fetch \<Rightarrow> error + Fetch" where
  "recvReqRetry accept s =
    (case retryPkt s of
       Some p \<Rightarrow>
         if \<not> cacheBlocked s then Inl (AssertionFailed ''cacheBlocked'')
         else if retryTid s = InvalidThreadID
         then Inl (AssertionFailed ''retryTid != InvalidThreadID'')
         else if fetchStatus s (retryTid s) \<noteq> IcacheWaitRetry
         then Inl (AssertionFailed ''fetchStatus[retryTid] == IcacheWaitRetry'')
         else
           (let s1 = s\<lparr>extLog := extLog s @ [SendTimingReq p accept]\<rparr>
            in if accept
               then Inr (s1\<lparr>icacheInFlight := icacheInFlight s1 @ [p],
                            fetchStatus := (fetchStatus s1)(retryTid s1 := IcacheWaitResponse),
                            extLog := extLog s1
                              @ [FetchRequestSent (map_option pktReq (pktStore s1 p))],
                            retryPkt := None,
                            retryTid := InvalidThreadID,
                            cacheBlocked := False\<rparr>)
               else Inr s1)
     | None \<Rightarrow>
         if retryTid s \<noteq> InvalidThreadID
         then Inl (AssertionFailed ''retryTid == InvalidThreadID'')
         else Inr (s\<lparr>cacheBlocked := False\<rparr>))"

subsection \<open>The SMT fetch policy\<close>

text \<open>The test that the arbiter repeats for a thread: its status lets it fetch.\<close>

definition fetchable :: "ThreadStatus \<Rightarrow> bool" where
  "fetchable st = (st = Running \<or> st = IcacheAccessComplete \<or> st = Idle)"

text \<open>
  The loop of \<open>Fetch::roundRobin\<close>: \<open>seen\<close> are the entries of the priority list before the
  iterator, the second list the entries from the iterator on.  The result is the thread
  and the priority list.
\<close>

fun roundRobin_loop ::
  "Fetch \<Rightarrow> ThreadID list \<Rightarrow> ThreadID list \<Rightarrow> error + (ThreadID \<times> ThreadID list)" where
  "roundRobin_loop s seen [] = Inr (InvalidThreadID, seen)"
| "roundRobin_loop s seen (high_pri # rest) =
    (if \<not> high_pri \<le> numThreads s
     then Inl (AssertionFailed ''high_pri <= numThreads'')
     else if fetchable (fetchStatus s high_pri)
     then Inr (high_pri, seen @ rest @ [high_pri])
     else roundRobin_loop s (seen @ [high_pri]) rest)"

definition roundRobin :: "Fetch \<Rightarrow> error + (ThreadID \<times> Fetch)" where
  "roundRobin s =
    (case roundRobin_loop s [] (priorityList s) of
       Inl e \<Rightarrow> Inl e
     | Inr (tid, pl) \<Rightarrow> Inr (tid, s\<lparr>priorityList := pl\<rparr>))"

text \<open>
  \<open>Fetch::iqCount\<close> and \<open>Fetch::lsqCount\<close> are the same code over two counts: the counts of
  the active threads go into a priority queue, smallest first, and into a map from count
  to thread in which a later thread replaces an earlier one with the same count.
\<close>

fun countPolicy_loop :: "Fetch \<Rightarrow> (nat \<rightharpoonup> ThreadID) \<Rightarrow> nat list \<Rightarrow> ThreadID" where
  "countPolicy_loop s threadMap [] = InvalidThreadID"
| "countPolicy_loop s threadMap (lowest # PQ) =
    (let high_pri = (case threadMap lowest of Some t \<Rightarrow> t | None \<Rightarrow> 0)
     in if fetchable (fetchStatus s high_pri) then high_pri
        else countPolicy_loop s threadMap PQ)"

definition countPolicy :: "(ThreadID \<Rightarrow> nat) \<Rightarrow> Fetch \<Rightarrow> ThreadID" where
  "countPolicy count s =
    countPolicy_loop s
      (fold (\<lambda>tid m. m(count tid \<mapsto> tid)) (activeThreads s) Map.empty)
      (sort (map count (activeThreads s)))"

definition iqCountPolicy :: "Fetch \<Rightarrow> ThreadID" where
  "iqCountPolicy s = countPolicy (iqCount s) s"

definition lsqCountPolicy :: "Fetch \<Rightarrow> ThreadID" where
  "lsqCountPolicy s = countPolicy (ldstqCount s) s"

text \<open>\<open>Fetch::branchCount\<close> panics.\<close>

definition branchCount :: "Fetch \<Rightarrow> error + (ThreadID \<times> Fetch)" where
  "branchCount s = Inl (Panic ''Branch Count Fetch policy unimplemented'')"

text \<open>\<open>Fetch::getFetchingThread\<close>.\<close>

definition getFetchingThread :: "Fetch \<Rightarrow> error + (ThreadID \<times> Fetch)" where
  "getFetchingThread s =
    (if numThreads s > 1
     then
       (if decoupledFrontEnd s then Inl (AssertionFailed ''!decoupledFrontEnd'')
        else
          (case fetchPolicy s of
             RoundRobin \<Rightarrow> roundRobin s
           | IQCount \<Rightarrow> Inr (iqCountPolicy s, s)
           | LSQCount \<Rightarrow> Inr (lsqCountPolicy s, s)
           | Branch \<Rightarrow> branchCount s))
     else
       (case activeThreads s of
          [] \<Rightarrow> Inr (InvalidThreadID, s)
        | tid # _ \<Rightarrow>
            if fetchable (fetchStatus s tid) then Inr (tid, s)
            else Inr (InvalidThreadID, s)))"

text \<open>\<open>Fetch::profileStall\<close>.\<close>

definition profileStall :: "ThreadID \<Rightarrow> Fetch \<Rightarrow> Fetch" where
  "profileStall tid s =
    (let st = fetchStats s
     in if stallsDrain s tid
        then s\<lparr>fetchStats := st\<lparr>pendingDrainCycles := pendingDrainCycles st + 1\<rparr>\<rparr>
        else if activeThreads s = []
        then s\<lparr>fetchStats := st\<lparr>noActiveThreadStallCycles := noActiveThreadStallCycles st + 1\<rparr>\<rparr>
        else if fetchStatus s tid = Blocked
        then s\<lparr>fetchStats := st\<lparr>blockedCycles := blockedCycles st + 1\<rparr>\<rparr>
        else if fetchStatus s tid = Squashing
        then s\<lparr>fetchStats := st\<lparr>squashCycles := squashCycles st + 1\<rparr>\<rparr>
        else if fetchStatus s tid = IcacheWaitResponse
        then s\<lparr>cpuIcacheStallCycles := (cpuIcacheStallCycles s)
                                          (tid := cpuIcacheStallCycles s tid + 1)\<rparr>
        else if fetchStatus s tid = ItlbWait
        then s\<lparr>fetchStats := st\<lparr>tlbCycles := tlbCycles st + 1\<rparr>\<rparr>
        else if fetchStatus s tid = FTQEmpty
        then s\<lparr>fetchStats := st\<lparr>ftqStallCycles := ftqStallCycles st + 1\<rparr>\<rparr>
        else if fetchStatus s tid = TrapPending
        then s\<lparr>fetchStats := st\<lparr>pendingTrapStallCycles := pendingTrapStallCycles st + 1\<rparr>\<rparr>
        else if fetchStatus s tid = QuiescePending
        then s\<lparr>fetchStats := st\<lparr>pendingQuiesceStallCycles := pendingQuiesceStallCycles st + 1\<rparr>\<rparr>
        else if fetchStatus s tid = IcacheWaitRetry
        then s\<lparr>fetchStats := st\<lparr>icacheWaitRetryStallCycles := icacheWaitRetryStallCycles st + 1\<rparr>\<rparr>
        else s)"

text \<open>
  \<open>Fetch::fetch\<close> up to the return of the branch that handles \<open>InvalidThreadID\<close>.  What the
  function does for a thread that the arbiter chose drives the decoder and the branch
  address calculator; it is the argument \<open>fetchFrom\<close>.  The flag is \<open>status_change\<close>, which
  the source passes by reference.
\<close>

definition fetch ::
  "(ThreadID \<Rightarrow> bool \<Rightarrow> Fetch \<Rightarrow> error + (bool \<times> Fetch)) \<Rightarrow> bool \<Rightarrow> Fetch
     \<Rightarrow> error + (bool \<times> Fetch)" where
  "fetch fetchFrom status_change s =
    (case getFetchingThread s of
       Inl e \<Rightarrow> Inl e
     | Inr (tid, s1) \<Rightarrow>
         if cpuSwitchedOut s1 then Inl (AssertionFailed ''!cpu->switchedOut()'')
         else if tid = InvalidThreadID
         then
           (let s2 = s1\<lparr>threadFetched := numFetchingThreads s1\<rparr>
            in Inr (status_change, if numThreads s2 = 1 then profileStall 0 s2 else s2))
         else fetchFrom tid status_change s1)"

subsection \<open>Signals from the later stages\<close>

text \<open>What the time buffers hold for one thread when \<open>checkSignalsAndUpdate\<close> reads them.\<close>

record TimeStruct =
  decodeBlock :: bool
  decodeUnblock :: bool
  commitSquash :: bool
  commitPC :: PCState
  commitDoneSeqNum :: InstSeqNum
  commitSquashInst :: "DynInst option"
  decodeSquash :: bool
  decodeNextPC :: PCState
  decodeSquashInst :: "DynInst option"
  decodeDoneSeqNum :: InstSeqNum

text \<open>\<open>Fetch::checkSignalsAndUpdate\<close>.\<close>

definition checkSignalsAndUpdate :: "ThreadID \<Rightarrow> TimeStruct \<Rightarrow> Fetch \<Rightarrow> error + (bool \<times> Fetch)" where
  "checkSignalsAndUpdate tid sig s =
    (let s1 = (if decodeBlock sig then s\<lparr>stallsDecode := (stallsDecode s)(tid := True)\<rparr> else s)
     in if decodeUnblock sig \<and> \<not> stallsDecode s1 tid
        then Inl (AssertionFailed ''stalls[tid].decode'')
        else if decodeUnblock sig \<and> decodeBlock sig
        then Inl (AssertionFailed ''!fromDecode->decodeBlock[tid]'')
        else
          (let s2 = (if decodeUnblock sig
                     then s1\<lparr>stallsDecode := (stallsDecode s1)(tid := False)\<rparr> else s1)
           in if commitSquash sig
              then
                (case squash (commitPC sig) (commitDoneSeqNum sig) (commitSquashInst sig) tid s2 of
                   Inl e \<Rightarrow> Inl e
                 | Inr s3 \<Rightarrow> Inr (True, s3))
              else if decodeSquash sig \<and> fetchStatus s2 tid \<noteq> Squashing
              then
                (case squashFromDecode (decodeNextPC sig) (decodeSquashInst sig)
                        (decodeDoneSeqNum sig) tid s2 of
                   Inl e \<Rightarrow> Inl e
                 | Inr s3 \<Rightarrow> Inr (True, s3))
              else
                (case checkStall tid s2 of
                   Inl e \<Rightarrow> Inl e
                 | Inr stalled \<Rightarrow>
                     if stalled
                        \<and> fetchStatus s2 tid \<noteq> IcacheWaitResponse
                        \<and> fetchStatus s2 tid \<noteq> IcacheWaitRetry
                        \<and> fetchStatus s2 tid \<noteq> ItlbWait
                        \<and> fetchStatus s2 tid \<noteq> FTQEmpty
                        \<and> fetchStatus s2 tid \<noteq> QuiescePending
                     then Inr (True, s2\<lparr>fetchStatus := (fetchStatus s2)(tid := Blocked)\<rparr>)
                     else if fetchStatus s2 tid = Blocked \<or> fetchStatus s2 tid = Squashing
                     then
                       (if decoupledFrontEnd s2 \<and> ftq s2 tid = []
                        then Inr (True, s2\<lparr>fetchStatus := (fetchStatus s2)(tid := FTQEmpty)\<rparr>)
                        else Inr (True, s2\<lparr>fetchStatus := (fetchStatus s2)(tid := Running)\<rparr>))
                     else if fetchStatus s2 tid = FTQEmpty \<and> ftq s2 tid \<noteq> []
                     then Inr (True, s2\<lparr>fetchStatus := (fetchStatus s2)(tid := Running)\<rparr>)
                     else Inr (False, s2))))"

subsection \<open>Construction and reset\<close>

text \<open>
  The parameters of the constructor, and what it reads from the CPU it is built into: the
  cache line size, the decoder's instruction size, the compiled limits of cpu/o3/limits.hh,
  the memory map, the context ids, the fresh PC state of the ISA, the PC that the CPU holds
  for each thread and the nop instruction.
\<close>

record BaseO3CPUParams =
  param_smtFetchPolicy :: SMTFetchPolicy
  param_maxOutstandingPrefetches :: int
  param_maxOutstandingTranslations :: int
  param_decoupledFrontEnd :: bool
  param_fetchWidth :: nat
  param_decodeWidth :: nat
  param_fetchBufferSize :: Addr
  param_fetchQueueSize :: nat
  param_numThreads :: ThreadID
  param_smtNumFetchingThreads :: ThreadID
  param_cacheLineSize :: Addr
  param_moreBytesSize :: nat
  param_MaxThreads :: ThreadID
  param_MaxWidth :: nat
  param_isMemAddr :: "Addr \<Rightarrow> bool"
  param_contextId :: "ThreadID \<Rightarrow> int"
  param_contextToThread :: "int \<Rightarrow> ThreadID"
  param_newPCState :: PCState
  param_pcState :: "ThreadID \<Rightarrow> PCState"
  param_nopStaticInst :: StaticInst
  param_instRequestorId :: nat
  param_taskId :: nat
  param_activeThreads :: "ThreadID list"

definition emptyStats :: FetchStatGroup where
  "emptyStats =
    \<lparr>predictedBranches = 0, cycles = 0, squashCycles = 0, tlbCycles = 0, ftqStallCycles = 0,
     idleCycles = 0, blockedCycles = 0, miscStallCycles = 0, pendingDrainCycles = 0,
     noActiveThreadStallCycles = 0, pendingTrapStallCycles = 0,
     pendingQuiesceStallCycles = 0, icacheWaitRetryStallCycles = 0, cacheLines = 0,
     icacheSquashes = 0, tlbSquashes = 0, nisnDist = [], instrAccessLatency = [],
     translationLatency = [], memReqInFlight = [], ftReadyToFetch = 0,
     ftPrefetchInProgress = 0, ftTranslationInProgress = 0, ftTranslationReady = 0,
     ftTranslationFailed = 0, ftCrossCacheBlock = 0, ftCrossCacheBlockNotNext = 0,
     demandHit = 0, demandMiss = 0, pfIssued = 0, pfReceived = 0, pfLate = 0, pfInCache = 0,
     pfSquashed = 0, pfLimitReached = 0, pfTranslationLimitReached = 0\<rparr>"

definition emptyFetchTarget :: FetchTarget where
  "emptyFetchTarget =
    \<lparr>ftState = Initial, ftReq = None, ftStartAddress = 0, ftBlkAddr = 0, ftPaddr = None,
     ftFallThrough = False, ftFault = NoFault, ftValid = False\<rparr>"

definition emptyRequest :: Request where
  "emptyRequest =
    \<lparr>reqVaddr = 0, reqSize = 0, reqInstFetch = False, reqRequestorId = 0, reqPC = 0,
     reqContextId = 0, reqTaskId = 0, reqPaddr = None, reqAccessDepth = 0\<rparr>"

text \<open>
  \<open>Fetch::Fetch\<close>, the constructor, with its four fatal configuration checks.  The fourth
  takes the remainder of the cache block by the fetch buffer; with a fetch buffer of size 0
  that is a division by zero, which is an error here.
\<close>

definition construct :: "BaseO3CPUParams \<Rightarrow> error + Fetch" where
  "construct params =
    (if param_numThreads params > param_MaxThreads params
     then Inl (Fatal ''numThreads is larger than compiled limit'')
     else if param_fetchWidth params > param_MaxWidth params
     then Inl (Fatal ''fetchWidth is larger than compiled limit'')
     else if param_fetchBufferSize params > param_cacheLineSize params
     then Inl (Fatal ''fetch buffer size is greater than the cache block size'')
     else if param_fetchBufferSize params = 0
     then Inl (Panic ''division by zero'')
     else if param_cacheLineSize params mod param_fetchBufferSize params \<noteq> 0
     then Inl (Fatal ''cache block is not a multiple of the fetch buffer'')
     else Inr
       \<lparr>fetchPolicy = param_smtFetchPolicy params,
        outstandingPrefetches = 0,
        maxOutstandingPrefetches = param_maxOutstandingPrefetches params,
        outstandingTranslations = 0,
        maxOutstandingTranslations = param_maxOutstandingTranslations params,
        decoupledFrontEnd = param_decoupledFrontEnd params,
        fetchWidth = param_fetchWidth params,
        decodeWidth = param_decodeWidth params,
        retryPkt = None,
        retryTid = InvalidThreadID,
        cacheBlkSize = param_cacheLineSize params,
        fetchBufferSize = param_fetchBufferSize params,
        fetchBufferMask = param_fetchBufferSize params - 1,
        fetchQueueSize = param_fetchQueueSize params,
        numThreads = param_numThreads params,
        numFetchingThreads = param_smtNumFetchingThreads params,
        instSize = param_moreBytesSize params,
        fetchStatus = (\<lambda>tid. Idle),
        pc = (\<lambda>tid. param_newPCState params),
        fetchOffset = (\<lambda>tid. 0),
        macroop = (\<lambda>tid. None),
        delayedCommit = (\<lambda>tid. False),
        memReq = (\<lambda>tid. None),
        stallsDecode = (\<lambda>tid. False),
        stallsDrain = (\<lambda>tid. False),
        fetchBuffer = (\<lambda>tid. []),
        fetchBufferPC = (\<lambda>tid. 0),
        fetchBufferValid = (\<lambda>tid. False),
        lastIcacheStall = (\<lambda>tid. 0),
        issuePipelinedIfetch = (\<lambda>tid. False),
        fetchQueue = (\<lambda>tid. []),
        cacheBlocked = False,
        interruptPending = False,
        fetchesInProgress = {},
        priorityList = [],
        stageStatus = Inactive,
        numInst = 0,
        wroteToTimeBuffer = False,
        threadFetched = 0,
        processTrapEvent = None,
        fetchStats = emptyStats,
        reqStore = (\<lambda>r. emptyRequest),
        nextReq = 0,
        pktStore = (\<lambda>p. None),
        nextPkt = 0,
        ftStore = (\<lambda>f. emptyFetchTarget),
        nextFt = 0,
        ftq = (\<lambda>tid. []),
        ftqValid = (\<lambda>tid. True),
        activeThreads = param_activeThreads params,
        cpuSwitchedOut = False,
        cpuDraining = False,
        cpuInstSeq = 0,
        cpuPcState = param_pcState params,
        cpuIcacheStallCycles = (\<lambda>tid. 0),
        cpuInstRequestorId = param_instRequestorId params,
        cpuTaskId = param_taskId params,
        cpuContextId = param_contextId params,
        cpuContextToThread = param_contextToThread params,
        isMemAddr = param_isMemAddr params,
        nopStaticInst = param_nopStaticInst params,
        iqCount = (\<lambda>tid. 0),
        ldstqCount = (\<lambda>tid. 0),
        curTick = 0,
        mmuPending = [],
        icacheInFlight = [],
        extLog = []\<rparr>)"

text \<open>The body of the loop of \<open>Fetch::resetStage\<close> for one thread.\<close>

definition resetThread :: "ThreadID \<Rightarrow> Fetch \<Rightarrow> Fetch" where
  "resetThread tid s =
    s\<lparr>fetchStatus := (fetchStatus s)(tid := Running),
      pc := (pc s)(tid := cpuPcState s tid),
      fetchOffset := (fetchOffset s)(tid := 0),
      macroop := (macroop s)(tid := None),
      delayedCommit := (delayedCommit s)(tid := False),
      memReq := (memReq s)(tid := None),
      stallsDecode := (stallsDecode s)(tid := False),
      stallsDrain := (stallsDrain s)(tid := False),
      fetchBufferPC := (fetchBufferPC s)(tid := 0),
      fetchBufferValid := (fetchBufferValid s)(tid := False),
      fetchQueue := (fetchQueue s)(tid := []),
      priorityList := priorityList s @ [tid]\<rparr>"

text \<open>\<open>Fetch::resetStage\<close>.\<close>

definition resetStage :: "Fetch \<Rightarrow> Fetch" where
  "resetStage s =
    (fold resetThread [0 .. numThreads s - 1]
       (s\<lparr>numInst := 0, interruptPending := False, cacheBlocked := False,
          priorityList := []\<rparr>))
      \<lparr>wroteToTimeBuffer := False, stageStatus := Inactive\<rparr>"

text \<open>\<open>Fetch::startupStage\<close>.\<close>

definition startupStage :: "Fetch \<Rightarrow> error + Fetch" where
  "startupStage s =
    (if priorityList s \<noteq> [] then Inl (AssertionFailed ''priorityList.empty()'')
     else Inr (switchToActive (resetStage s)))"

text \<open>The stage after construction and start-up.\<close>

definition started :: "BaseO3CPUParams \<Rightarrow> error + Fetch" where
  "started params = (case construct params of Inl e \<Rightarrow> Inl e | Inr s \<Rightarrow> startupStage s)"

subsection \<open>Runs of the stage\<close>

text \<open>
  The stage is driven by its tick and by the callbacks of the MMU and of the cache port.
  An event is one entry into the stage, with what the collaborators answer during it, or
  one action of the branch address calculator on the fetch-target queue:
  \<^item> \<open>CheckSignals\<close>: the tick reads the signals of a thread (\<open>checkSignalsAndUpdate\<close>);
  \<^item> \<open>FetchLine\<close>: \<open>fetch\<close> or \<open>pipelineIcacheAccesses\<close> calls \<open>fetchCacheLine\<close>, which both do
    for a thread that is Running only;
  \<^item> \<open>ProcessFTQ\<close>: the tick calls \<open>processFTQ\<close>, with a decoupled front-end only;
  \<^item> \<open>TranslationDone\<close>: the MMU answers one of the translations it holds;
  \<^item> \<open>CacheResponse\<close>: the cache answers one of the packets it holds, with the data, the
    access depth and the latency of the access;
  \<^item> \<open>ReqRetry\<close>: the cache port asks for the retry of a rejected packet;
  \<^item> \<open>TrapEvent\<close>: the scheduled \<open>processTrapEvent\<close> fires;
  \<^item> \<open>Interrupt\<close>: the tick latches or clears the interrupt that commit signals;
  \<^item> \<open>ResumeFetch\<close>: \<open>fetch\<close> finds the thread in IcacheAccessComplete and sets it Running.
  Modelled from the spec: \<open>FTQInsert\<close> appends a new fetch target in state Initial,
  \<open>FTQUpdateHead\<close> pops the head that fetch has consumed and \<open>FTQSquash\<close> empties the queue
  of a thread, invalidating its targets.  An event that the collaborators cannot produce
  in a state is \<open>NotEnabled\<close> there.  The entry points that the CPU calls to drain the
  stage, to activate and deactivate a thread and to wake it from a quiesce
  (\<open>drainStall\<close>, \<open>drainResume\<close>, \<open>clearStates\<close>, \<open>deactivateThread\<close>, \<open>wakeFromQuiesce\<close>,
  \<open>takeOverFrom\<close>) are not events of a run: when the CPU calls them is decided in
  cpu/o3/cpu.cc.  The loop of \<open>fetch\<close> that feeds the decoder and queues the instructions
  is not an event either; of a fetch pass a run has the call of \<open>fetchCacheLine\<close> and the
  step from IcacheAccessComplete to Running.
\<close>

datatype event =
    CheckSignals ThreadID TimeStruct
  | FetchLine Addr ThreadID Addr Oracle
  | ProcessFTQ ThreadID Oracle
  | TranslationDone nat Fault Addr nat bool
  | CacheResponse pkt_ptr "8 word list" nat nat
  | ReqRetry bool
  | TrapEvent
  | Interrupt bool
  | ResumeFetch ThreadID
  | FTQInsert ThreadID Addr Addr bool
  | FTQUpdateHead ThreadID
  | FTQSquash ThreadID

definition step :: "event \<Rightarrow> Fetch \<Rightarrow> error + Fetch" where
  "step ev s =
    (case ev of
       CheckSignals tid sig \<Rightarrow>
         (case checkSignalsAndUpdate tid sig s of
            Inl e \<Rightarrow> Inl e
          | Inr (changed, s1) \<Rightarrow> Inr s1)
     | FetchLine vaddr tid pc_addr orc \<Rightarrow>
         if fetchStatus s tid \<noteq> Running then Inl NotEnabled
         else
           (case fetchCacheLine vaddr tid pc_addr None orc s of
              Inl e \<Rightarrow> Inl e
            | Inr (started_fetch, s1) \<Rightarrow> Inr s1)
     | ProcessFTQ tid orc \<Rightarrow>
         if \<not> decoupledFrontEnd s then Inl NotEnabled else processFTQ tid orc s
     | TranslationDone i fault paddr lat accept \<Rightarrow>
         if \<not> i < length (mmuPending s) then Inl NotEnabled
         else
           (case mmuPending s ! i of
              (req, tid, ft) \<Rightarrow>
                finishTranslation fault req ft lat accept
                  (mmuTranslated fault paddr req
                     (s\<lparr>mmuPending := take i (mmuPending s) @ drop (Suc i) (mmuPending s)\<rparr>)))
     | CacheResponse p data depth latency \<Rightarrow>
         if p \<notin> set (icacheInFlight s) then Inl NotEnabled
         else
           (case pktStore s p of
              None \<Rightarrow> Inl (Panic ''response for a deleted packet'')
            | Some pkt \<Rightarrow>
                processCacheCompletion p latency
                  (s\<lparr>icacheInFlight := removeAll p (icacheInFlight s),
                     pktStore := (pktStore s)(p := Some (pkt\<lparr>pktData := data\<rparr>)),
                     reqStore := (reqStore s)
                       (pktReq pkt := (reqStore s (pktReq pkt))\<lparr>reqAccessDepth := depth\<rparr>)\<rparr>))
     | ReqRetry accept \<Rightarrow>
         if \<not> cacheBlocked s then Inl NotEnabled else recvReqRetry accept s
     | TrapEvent \<Rightarrow>
         (case processTrapEvent s of
            None \<Rightarrow> Inl NotEnabled
          | Some (tid, fault, req) \<Rightarrow> processTrap tid fault req (s\<lparr>processTrapEvent := None\<rparr>))
     | Interrupt pending \<Rightarrow> Inr (s\<lparr>interruptPending := pending\<rparr>)
     | ResumeFetch tid \<Rightarrow>
         if fetchStatus s tid \<noteq> IcacheAccessComplete then Inl NotEnabled
         else Inr (s\<lparr>fetchStatus := (fetchStatus s)(tid := Running)\<rparr>)
     | FTQInsert tid start blk fallThrough \<Rightarrow>
         Inr (s\<lparr>ftStore := (ftStore s)(nextFt s :=
                   \<lparr>ftState = Initial, ftReq = None, ftStartAddress = start, ftBlkAddr = blk,
                    ftPaddr = None, ftFallThrough = fallThrough, ftFault = NoFault,
                    ftValid = True\<rparr>),
                nextFt := Suc (nextFt s),
                ftq := (ftq s)(tid := ftq s tid @ [nextFt s])\<rparr>)
     | FTQUpdateHead tid \<Rightarrow>
         if ftq s tid = [] then Inl NotEnabled
         else Inr (s\<lparr>ftq := (ftq s)(tid := tl (ftq s tid))\<rparr>)
     | FTQSquash tid \<Rightarrow>
         Inr (s\<lparr>ftStore := (\<lambda>f. if f \<in> set (ftq s tid)
                                 then (ftStore s f)\<lparr>ftValid := False\<rparr> else ftStore s f),
                ftq := (ftq s)(tid := [])\<rparr>))"

fun run :: "event list \<Rightarrow> Fetch \<Rightarrow> error + Fetch" where
  "run [] s = Inr s"
| "run (ev # evs) s = (case step ev s of Inl e \<Rightarrow> Inl e | Inr s1 \<Rightarrow> run evs s1)"

text \<open>A state is reachable when a run of events leads to it from the started stage.\<close>

definition reachable :: "BaseO3CPUParams \<Rightarrow> Fetch \<Rightarrow> bool" where
  "reachable params s = (\<exists>s0 evs. started params = Inr s0 \<and> run evs s0 = Inr s)"

subsection \<open>Configurations of the scenarios\<close>

text \<open>
  The configuration of the spec's end-to-end scenarios: fetch width 4, decode width 4, a
  fetch buffer of 16 bytes in cache blocks of 64, a fetch queue of 8 instructions of 4
  bytes, one thread, no decoupled front-end.  Physical memory is the first 2 GiB.
\<close>

definition scenarioParams :: BaseO3CPUParams where
  "scenarioParams =
    \<lparr>param_smtFetchPolicy = RoundRobin,
     param_maxOutstandingPrefetches = 2,
     param_maxOutstandingTranslations = 1,
     param_decoupledFrontEnd = False,
     param_fetchWidth = 4,
     param_decodeWidth = 4,
     param_fetchBufferSize = 16,
     param_fetchQueueSize = 8,
     param_numThreads = 1,
     param_smtNumFetchingThreads = 1,
     param_cacheLineSize = 64,
     param_moreBytesSize = 4,
     param_MaxThreads = 4,
     param_MaxWidth = 12,
     param_isMemAddr = (\<lambda>a. a < 0x80000000),
     param_contextId = (\<lambda>tid. tid),
     param_contextToThread = (\<lambda>cid. cid),
     param_newPCState = \<lparr>instAddr = 0, microPC = 0\<rparr>,
     param_pcState = (\<lambda>tid. \<lparr>instAddr = 0x1000, microPC = 0\<rparr>),
     param_nopStaticInst =
       \<lparr>siName = ''nop'', siIsLastMicroop = False, siIsDelayedCommit = False\<rparr>,
     param_instRequestorId = 0,
     param_taskId = 0,
     param_activeThreads = [0]\<rparr>"

text \<open>The same with two threads, and the same with the decoupled front-end.\<close>

definition smtParams :: BaseO3CPUParams where
  "smtParams = scenarioParams\<lparr>param_numThreads := 2, param_smtNumFetchingThreads := 1,
                               param_activeThreads := [0, 1]\<rparr>"

definition dfeParams :: BaseO3CPUParams where
  "dfeParams = scenarioParams\<lparr>param_decoupledFrontEnd := True\<rparr>"

text \<open>Signals that ask for nothing, and a squash from commit to a new PC.\<close>

definition noSignals :: TimeStruct where
  "noSignals =
    \<lparr>decodeBlock = False, decodeUnblock = False, commitSquash = False,
     commitPC = \<lparr>instAddr = 0, microPC = 0\<rparr>, commitDoneSeqNum = 0, commitSquashInst = None,
     decodeSquash = False, decodeNextPC = \<lparr>instAddr = 0, microPC = 0\<rparr>,
     decodeSquashInst = None, decodeDoneSeqNum = 0\<rparr>"

definition commitSquashTo :: "Addr \<Rightarrow> TimeStruct" where
  "commitSquashTo a = noSignals\<lparr>commitSquash := True, commitPC := \<lparr>instAddr = a, microPC = 0\<rparr>\<rparr>"

text \<open>The collaborators' answers when the MMU completes later and the cache accepts.\<close>

definition acceptingCache :: Oracle where
  "acceptingCache = \<lparr>mmuSync = None, icacheAccept = True\<rparr>"

subsection \<open>Runs of the scenarios\<close>

text \<open>
  The spec's scenario 3, cache back-pressure: the thread asks for the line at 0x1000, the MMU
  answers later with the physical address 0x5000, and the cache rejects the demand packet.
\<close>

definition retryTrace :: "event list" where
  "retryTrace =
    [FetchLine 0x1000 0 0x1000 \<lparr>mmuSync = None, icacheAccept = True\<rparr>,
     TranslationDone 0 NoFault 0x5000 1 False]"

text \<open>The thread of the scenario after the MMU has translated its demand request.\<close>

definition translatedDemand :: Fetch where
  "translatedDemand =
    mmuTranslated NoFault 0x5000 0
      (projr (run [FetchLine 0x1000 0 0x1000 \<lparr>mmuSync = None, icacheAccept = True\<rparr>]
                (projr (started scenarioParams))))"

text \<open>
  The scenario's thread while it waits for the response to its demand packet, and a second
  request whose physical address lies outside physical memory.
\<close>

definition demandInFlight :: Fetch where
  "demandInFlight =
    (let s = projr (run [FetchLine 0x1000 0 0x1000 \<lparr>mmuSync = None, icacheAccept = True\<rparr>,
                         TranslationDone 0 NoFault 0x5000 1 True]
                     (projr (started scenarioParams)))
     in s\<lparr>reqStore := (reqStore s)
             (1 := emptyRequest\<lparr>reqVaddr := 0x1040, reqPaddr := Some 0x90000000\<rparr>)\<rparr>)"

text \<open>
  The spec's scenario 6: two threads under round-robin, thread 0 fetchable and thread 1
  waiting for its translation.
\<close>

definition arbiterScenario :: Fetch where
  "arbiterScenario =
    projr (run [FetchLine 0x1000 1 0x1000 \<lparr>mmuSync = None, icacheAccept = True\<rparr>]
             (projr (started smtParams)))"

text \<open>Both threads of the two-thread configuration waiting for their translations.\<close>

definition bothWaiting :: Fetch where
  "bothWaiting =
    projr (run [FetchLine 0x1000 0 0x1000 \<lparr>mmuSync = None, icacheAccept = True\<rparr>,
                FetchLine 0x1000 1 0x1000 \<lparr>mmuSync = None, icacheAccept = True\<rparr>]
             (projr (started smtParams)))"

text \<open>A rest of \<open>fetch\<close> that does nothing, to run \<open>fetch\<close> on a state.\<close>

definition fetchNothing :: "ThreadID \<Rightarrow> bool \<Rightarrow> Fetch \<Rightarrow> error + (bool \<times> Fetch)" where
  "fetchNothing tid status_change s = Inr (status_change, s)"

text \<open>
  A run with the decoupled front-end: the branch address calculator queues the targets of
  the blocks 0x1000 and 0x1040, \<open>processFTQ\<close> starts the translation of the second, the MMU
  answers with the physical address 0x5040, and fetch consumes the first target, so that
  the translated target is the head of the queue.
\<close>

definition translatedHeadTrace :: "event list" where
  "translatedHeadTrace =
    [FTQInsert 0 0x1000 0x1000 True,
     FTQInsert 0 0x1040 0x1040 True,
     ProcessFTQ 0 \<lparr>mmuSync = None, icacheAccept = True\<rparr>,
     TranslationDone 0 NoFault 0x5040 1 True,
     FTQUpdateHead 0]"

definition translatedHead :: Fetch where
  "translatedHead = projr (run translatedHeadTrace (projr (started dfeParams)))"

text \<open>
  A run with the decoupled front-end in which a prefetch is in flight behind a demand: the
  targets of the blocks 0x1000 and 0x1040 are queued; the thread fetches the line at 0x1000
  through the head, the MMU translates it to 0x5000 and the cache accepts the demand
  packet 0; \<open>processFTQ\<close> translates the second target to 0x5040 and sends the prefetch
  packet 1 for it.
\<close>

definition prefetchBehindDemandTrace :: "event list" where
  "prefetchBehindDemandTrace =
    [FTQInsert 0 0x1000 0x1000 True,
     FTQInsert 0 0x1040 0x1040 True,
     FetchLine 0x1000 0 0x1000 acceptingCache,
     TranslationDone 0 NoFault 0x5000 1 True,
     ProcessFTQ 0 acceptingCache,
     TranslationDone 0 NoFault 0x5040 1 True,
     ProcessFTQ 0 acceptingCache]"

definition prefetchBehindDemand :: Fetch where
  "prefetchBehindDemand = projr (run prefetchBehindDemandTrace (projr (started dfeParams)))"

text \<open>
  The run goes on: the demand response arrives and commit signals an interrupt; fetch
  resumes and consumes the first target, so that the prefetched target becomes the head of
  the queue; the pipelined call of \<open>fetchCacheLine\<close> for the line at 0x1040 returns at once
  because of the interrupt, so that the prefetch is not taken over.
\<close>

definition prefetchForHeadTrace :: "event list" where
  "prefetchForHeadTrace =
    prefetchBehindDemandTrace
    @ [CacheResponse 0 (replicate 16 0) 1 5,
       Interrupt True,
       ResumeFetch 0,
       FTQUpdateHead 0,
       FetchLine 0x1040 0 0x1040 acceptingCache]"

text \<open>
  Two states of the decoupled front-end in which \<open>processFTQ\<close> has work: the two targets
  are queued and the second needs its translation; and the second is translated and can
  be prefetched.
\<close>

definition queuedTargetsTrace :: "event list" where
  "queuedTargetsTrace =
    [FTQInsert 0 0x1000 0x1000 True,
     FTQInsert 0 0x1040 0x1040 True]"

definition queuedTargets :: Fetch where
  "queuedTargets = projr (run queuedTargetsTrace (projr (started dfeParams)))"

definition translatedTargetTrace :: "event list" where
  "translatedTargetTrace =
    queuedTargetsTrace
    @ [ProcessFTQ 0 acceptingCache,
       TranslationDone 0 NoFault 0x5040 1 True]"

definition translatedTarget :: Fetch where
  "translatedTarget = projr (run translatedTargetTrace (projr (started dfeParams)))"

text \<open>
  A run of the scenario configuration, whose ceiling for translations is 1: the thread
  asks for the line at 0x1000 and waits for the MMU, commit squashes it to 0x2000, and the
  next tick sets it Running again while the MMU still holds the first translation.
\<close>

definition squashedDemandTrace :: "event list" where
  "squashedDemandTrace =
    [FetchLine 0x1000 0 0x1000 acceptingCache,
     CheckSignals 0 (commitSquashTo 0x2000),
     CheckSignals 0 noSignals]"

definition atCeiling :: Fetch where
  "atCeiling = projr (run squashedDemandTrace (projr (started scenarioParams)))"

definition overCeiling :: Fetch where
  "overCeiling = projr (step (FetchLine 0x2000 0 0x2000 acceptingCache) atCeiling)"

text \<open>
  A run with the decoupled front-end and without a squash, in which the response to a
  demand packet finds that its thread no longer waits for it.  The targets of the blocks
  0x1000, 0x1040 and 0x1080 are queued.  The thread fetches the line at 0x1030 through the
  head and resumes; the instruction at 0x103c runs over the end of the block, so the thread
  asks for the line at 0x1040, which \<open>fetchCacheLine\<close> takes from the second target: the
  request of the demand is attached to that target, the MMU translates it to 0x5040 and the
  cache accepts the demand packet 1.  \<open>processFTQ\<close> then has the third target translated,
  the MMU answers with an address outside physical memory, and the prefetch of that
  address sets the thread to NoGoodAddr.  The response to packet 1 arrives after that.
\<close>

definition lateDemandTrace :: "event list" where
  "lateDemandTrace =
    [FTQInsert 0 0x1000 0x1000 True,
     FTQInsert 0 0x1040 0x1040 True,
     FTQInsert 0 0x1080 0x1080 True,
     FetchLine 0x103c 0 0x103c acceptingCache,
     TranslationDone 0 NoFault 0x5030 1 True,
     CacheResponse 0 (replicate 16 0) 1 5,
     ResumeFetch 0,
     FetchLine 0x1040 0 0x103c acceptingCache,
     TranslationDone 0 NoFault 0x5040 1 True,
     ProcessFTQ 0 acceptingCache,
     TranslationDone 0 NoFault 0x90000000 1 True,
     ProcessFTQ 0 acceptingCache]"

definition lateDemand :: Fetch where
  "lateDemand = projr (run lateDemandTrace (projr (started dfeParams)))"

definition negativePrefetches :: Fetch where
  "negativePrefetches = projr (step (CacheResponse 1 (replicate 16 0) 1 5) lateDemand)"

subsection \<open>Quantities and invariants of a run\<close>

text \<open>
  The counter of outstanding translations less the translations that the MMU holds: the
  translations that the stage counts and the MMU has already answered.
\<close>

definition translationBalance :: "Fetch \<Rightarrow> int" where
  "translationBalance s = outstandingTranslations s - int (length (mmuPending s))"

text \<open>The calls of \<open>translateTiming\<close> that the stage has made.\<close>

definition translationsStarted :: "Fetch \<Rightarrow> nat" where
  "translationsStarted s =
    length (filter (\<lambda>c. case c of TranslateTiming r t \<Rightarrow> True | _ \<Rightarrow> False) (extLog s))"

text \<open>
  What the limits on translations and prefetches are about: the two counters and their
  ceilings, the translations that the MMU holds, the calls of \<open>translateTiming\<close> and the
  prefetches sent so far.
\<close>

definition issueState ::
  "Fetch \<Rightarrow> int \<times> int \<times> (req_ptr \<times> ThreadID \<times> ft_ptr option) list \<times> nat \<times> int \<times> int \<times> int" where
  "issueState s =
    (outstandingTranslations s, maxOutstandingTranslations s, mmuPending s,
     translationsStarted s, outstandingPrefetches s, maxOutstandingPrefetches s,
     pfIssued (fetchStats s))"

text \<open>
  The demand request and the status of each thread, and the invariant that relates them: a
  thread that holds a demand request waits for its translation, for the response of the
  cache or for the retry of its packet.
\<close>

definition waitState :: "Fetch \<Rightarrow> (ThreadID \<Rightarrow> req_ptr option) \<times> (ThreadID \<Rightarrow> ThreadStatus)" where
  "waitState s = (memReq s, fetchStatus s)"

definition holdsWaiting :: "Fetch \<Rightarrow> ThreadID \<Rightarrow> bool" where
  "holdsWaiting s t =
    (memReq s t \<noteq> None \<longrightarrow>
       fetchStatus s t = ItlbWait \<or> fetchStatus s t = IcacheWaitResponse
       \<or> fetchStatus s t = IcacheWaitRetry)"

definition waitsForRequest :: "Fetch \<Rightarrow> bool" where
  "waitsForRequest s = (\<forall>t. holdsWaiting s t)"

text \<open>
  The event squashes a thread that waits for the retry of its packet; a run is free of such
  squashes when none of its events does, in the state in which the event arrives.
\<close>

definition squashesRetry :: "event \<Rightarrow> Fetch \<Rightarrow> bool" where
  "squashesRetry ev s =
    (case ev of
       CheckSignals tid sig \<Rightarrow>
         (commitSquash sig \<or> decodeSquash sig) \<and> fetchStatus s tid = IcacheWaitRetry
     | _ \<Rightarrow> False)"

fun retrySquashFree :: "event list \<Rightarrow> Fetch \<Rightarrow> bool" where
  "retrySquashFree [] s = True"
| "retrySquashFree (ev # evs) s =
    (\<not> squashesRetry ev s
     \<and> (case step ev s of Inl e \<Rightarrow> True | Inr s1 \<Rightarrow> retrySquashFree evs s1))"

section \<open>Properties\<close>

subsection \<open>Evaluating the scenarios\<close>

lemma upto_0_1: "[0..1::int] = [0, 1]"
  by (simp add: upto.simps)

lemmas start_defs = started_def construct_def scenarioParams_def smtParams_def dfeParams_def
  startupStage_def resetStage_def resetThread_def switchToActive_def emptyStats_def
  emptyRequest_def emptyFetchTarget_def upto_0_1

lemmas op_defs = step_def fetchCacheLine_def fetchCacheLine_request_def checkInterrupt_def
  fetchBufferAlignPC_def cacheBlockAligned_def makeRequest_def
  startTranslation_def finishTranslation_def recordTranslation_def mmuTranslated_def performCacheAccess_def getPaddr_def
  updateFetchStatus_def checkSignalsAndUpdate_def checkStall_def squash_def squashFromDecode_def
  doSquash_def commitSquashTo_def noSignals_def NoFault_def InvalidThreadID_def

lemmas ftq_defs = processFTQ_def processFTQ_translations_def processFTQ_prefetch_def findAfterHead_def
  requiresTranslation_def translationReady_def readHead_def readNextHead_def selectFetchTarget_def
  fetchTargetSwitch_def popReq_def markReady_def prefetchIssued_def ftStartTranslation_def ftFinishTranslation_def

lemmas cache_defs = processCacheCompletion_def trySatisfyPrefetch_def

lemma Inr_projr: "\<exists>s. r = Inr s \<Longrightarrow> r = Inr (projr r)"
  by auto

lemma retryTrace_state:
  "\<exists>s0 s. started scenarioParams = Inr s0 \<and> run retryTrace s0 = Inr s
     \<and> fetchStatus s 0 = IcacheWaitRetry \<and> memReq s 0 = Some 0
     \<and> retryPkt s = Some 0 \<and> retryTid s = 0 \<and> cacheBlocked s"
  by (simp add: retryTrace_def start_defs op_defs Let_def)

lemma translatedDemand_facts:
  "reqPaddr (reqStore translatedDemand 0) = Some 0x5000"
  "isMemAddr translatedDemand 0x5000"
  "retryPkt translatedDemand = None"
  "retryTid translatedDemand = InvalidThreadID"
  "reqVaddr (reqStore translatedDemand 0) = 0x1000"
  "nextPkt translatedDemand = 0"
  "fetchStatus translatedDemand 0 = ItlbWait"
  "cacheBlocked translatedDemand = False"
  by (simp_all add: translatedDemand_def start_defs op_defs Let_def)

lemma demandInFlight_facts:
  "reqPaddr (reqStore demandInFlight 1) = Some 0x90000000"
  "\<not> isMemAddr demandInFlight 0x90000000"
  "fetchStatus demandInFlight 0 = IcacheWaitResponse"
  "memReq demandInFlight 0 = Some 0"
  by (simp_all add: demandInFlight_def start_defs op_defs Let_def)

lemma arbiterScenario_facts:
  "priorityList arbiterScenario = [0, 1]"
  "numThreads arbiterScenario = 2"
  "fetchStatus arbiterScenario 0 = Running"
  "fetchStatus arbiterScenario 1 = ItlbWait"
  by (simp_all add: arbiterScenario_def start_defs op_defs Let_def)

lemma bothWaiting_facts:
  "fetchStatus bothWaiting 0 = ItlbWait"
  "fetchStatus bothWaiting 1 = ItlbWait"
  "priorityList bothWaiting = [0, 1]"
  "numThreads bothWaiting = 2"
  "numFetchingThreads bothWaiting = 1"
  "decoupledFrontEnd bothWaiting = False"
  "fetchPolicy bothWaiting = RoundRobin"
  "cpuSwitchedOut bothWaiting = False"
  "stallsDrain bothWaiting 0 = False"
  "activeThreads bothWaiting = [0, 1]"
  "tlbCycles (fetchStats bothWaiting) = 0"
  by (simp_all add: bothWaiting_def start_defs op_defs Let_def)

lemma translatedDemand_fetch_facts:
  "getFetchingThread translatedDemand = Inr (InvalidThreadID, translatedDemand)"
  "priorityList translatedDemand = [0]"
  "cpuSwitchedOut translatedDemand = False"
  "numThreads translatedDemand = 1"
  "numFetchingThreads translatedDemand = 1"
  "tlbCycles (fetchStats translatedDemand) = 0"
  "stallsDrain translatedDemand 0 = False"
  "activeThreads translatedDemand = [0]"
  by (simp_all add: translatedDemand_def start_defs op_defs getFetchingThread_def fetchable_def Let_def)

lemma translatedHead_facts:
  "ftq translatedHead 0 = [1]"
  "ftReq (ftStore translatedHead 1) = Some 0"
  "ftState (ftStore translatedHead 1) = TranslationReady"
  "ftPaddr (ftStore translatedHead 1) = Some 0x5040"
  "ftBlkAddr (ftStore translatedHead 1) = 0x1040"
  "reqVaddr (reqStore translatedHead 0) = 0x1040"
  "cacheBlkSize translatedHead = 64"
  "outstandingTranslations translatedHead = 0"
  by (simp_all add: translatedHead_def translatedHeadTrace_def start_defs op_defs ftq_defs Let_def)

lemma prefetchBehindDemand_run:
  "run prefetchBehindDemandTrace (projr (started dfeParams)) = Inr prefetchBehindDemand"
  unfolding prefetchBehindDemand_def
  by (rule Inr_projr) (simp add: prefetchBehindDemandTrace_def start_defs op_defs ftq_defs cache_defs acceptingCache_def Let_def)

lemma prefetchBehindDemand_facts:
  "pktStore prefetchBehindDemand 0 = Some \<lparr>pktReq = 0, pktData = replicate 16 0\<rparr>"
  "pktStore prefetchBehindDemand 1 = Some \<lparr>pktReq = 1, pktData = replicate 16 0\<rparr>"
  "reqPaddr (reqStore prefetchBehindDemand 0) = Some 0x5000"
  "reqPaddr (reqStore prefetchBehindDemand 1) = Some 0x5040"
  "cpuContextToThread prefetchBehindDemand (reqContextId (reqStore prefetchBehindDemand 0)) = 0"
  "cpuContextToThread prefetchBehindDemand (reqContextId (reqStore prefetchBehindDemand 1)) = 0"
  "fetchStatus prefetchBehindDemand 0 = IcacheWaitResponse"
  "memReq prefetchBehindDemand 0 = Some 0"
  "cpuSwitchedOut prefetchBehindDemand = False"
  "stallsDrain prefetchBehindDemand 0 = False"
  "decoupledFrontEnd prefetchBehindDemand = True"
  "findAfterHead prefetchBehindDemand 0 (\<lambda>ft. ftReq ft = Some 1) = Some 1"
  "ftState (ftStore prefetchBehindDemand 1) = PrefetchInProgress"
  "outstandingPrefetches prefetchBehindDemand = 1"
  "fetchBufferSize prefetchBehindDemand = 16"
  "fetchBufferValid prefetchBehindDemand 0 = False"
  by (simp_all add: prefetchBehindDemand_def prefetchBehindDemandTrace_def start_defs op_defs
        ftq_defs cache_defs acceptingCache_def Let_def)

subsection \<open>Threads that hold a demand request\<close>

text \<open>
  Every entry point of the stage keeps the invariant on demand requests for every thread,
  with one exception: \<open>doSquash\<close> for a thread that waits for the retry of its packet.  So
  a run from the started stage in which no such thread is squashed ends in a state where
  every thread that holds a demand request waits for it.
\<close>

lemma waits_cong: "waitState s' = waitState s \<Longrightarrow> waitsForRequest s' = waitsForRequest s"
  by (simp add: waitState_def waitsForRequest_def holdsWaiting_def)

lemma holds_cong: "waitState s' = waitState s \<Longrightarrow> holdsWaiting s' t = holdsWaiting s t"
  by (simp add: waitState_def holdsWaiting_def)

text \<open>
  An access to the cache keeps the invariant for every thread, and a demand access
  establishes it for its own thread.
\<close>

lemma performCacheAccess_holds:
  assumes "performCacheAccess vaddr tid r prefetch accept s = Inr (b, s')"
    and "holdsWaiting s t" 
  shows "holdsWaiting s' t"
  using assms
  by (auto simp: performCacheAccess_def holdsWaiting_def Let_def
           split: sum.splits if_splits)

lemma performCacheAccess_demand_holds:
  assumes "performCacheAccess vaddr tid r False accept s = Inr (b, s')"
  shows "holdsWaiting s' tid"
  using assms
  by (auto simp: performCacheAccess_def holdsWaiting_def Let_def
           split: sum.splits if_splits)

lemma processTrap_holds:
  assumes "processTrap tid fault r s = Inr s'" and "holdsWaiting s t"
  shows "holdsWaiting s' t"
  using assms
  by (auto simp: processTrap_def buildInst_def holdsWaiting_def Let_def
           split: sum.splits if_splits prod.splits)

lemma updateFetchStatus_waitState:
  "waitState ((snd (updateFetchStatus s))\<lparr>stageStatus := st\<rparr>) = waitState s"
  by (simp add: updateFetchStatus_def waitState_def)

lemma recordTranslation_waitState:
  "recordTranslation fault r ft lat prefetch s = Some s' \<Longrightarrow> waitState s' = waitState s"
  by (auto simp: recordTranslation_def waitState_def split: option.splits if_splits)

lemma mmuTranslated_waitState: "waitState (mmuTranslated fault paddr r s) = waitState s"
  by (simp add: mmuTranslated_def waitState_def)



lemma finishTranslation_holds:
  assumes "finishTranslation fault r ft lat accept s = Inr s'" and "holdsWaiting s t"
  shows "holdsWaiting s' t"
proof -
  define tid where "tid = cpuContextToThread s (reqContextId (reqStore s r))"
  define s1 where "s1 = s\<lparr>extLog := extLog s @ [WakeCPU],
                          outstandingTranslations := outstandingTranslations s - 1\<rparr>"
  define stale where "stale \<longleftrightarrow> fetchStatus s1 tid \<noteq> ItlbWait
                 \<or> (case memReq s1 tid of
                       None \<Rightarrow> True
                     | Some m \<Rightarrow> r \<noteq> m
                         \<or> reqVaddr (reqStore s1 r) \<noteq> reqVaddr (reqStore s1 m))"
  define s2 where "s2 = (case recordTranslation fault r ft lat False s1 of
                           Some t \<Rightarrow> t | None \<Rightarrow> s1)"
  have v1: "waitState s1 = waitState s"
    by (simp add: s1_def waitState_def)
  have unfolded: "finishTranslation fault r ft lat accept s =
    (if cpuSwitchedOut s then Inl (AssertionFailed ''!cpu->switchedOut()'')
     else if stale
     then (case recordTranslation fault r ft lat True s1 of
             Some s2 \<Rightarrow> Inr s2
           | None \<Rightarrow> Inr (s1\<lparr>fetchStats := (fetchStats s1)
                              \<lparr>tlbSquashes := tlbSquashes (fetchStats s1) + 1\<rparr>\<rparr>))
     else (case (if fault = NoFault
                 then (case performCacheAccess (reqVaddr (reqStore s r)) tid r False accept s2 of
                         Inl e \<Rightarrow> Inl e
                       | Inr (sent, t) \<Rightarrow> Inr t)
                 else processTrap tid fault (Some r) s2) of
             Inl e \<Rightarrow> Inl e
           | Inr s3 \<Rightarrow> (case updateFetchStatus s3 of (st, s4) \<Rightarrow> Inr (s4\<lparr>stageStatus := st\<rparr>))))"
    unfolding finishTranslation_def Let_def tid_def s1_def stale_def s2_def by (rule refl)
  have v2: "waitState s2 = waitState s"
    unfolding s2_def using v1
    by (auto split: option.splits dest: recordTranslation_waitState)
  have w2: "holdsWaiting s2 t"
    using holds_cong [OF v2] assms(2) by simp
  show ?thesis
  proof (cases stale)
    case True
    show ?thesis
    proof (cases "recordTranslation fault r ft lat True s1")
      case None
      with True assms(1) unfolded
      have "s' = s1\<lparr>fetchStats := (fetchStats s1)
                              \<lparr>tlbSquashes := tlbSquashes (fetchStats s1) + 1\<rparr>\<rparr>"
        by (auto split: if_splits)
      then have "waitState s' = waitState s" using v1 by (simp add: waitState_def)
      from holds_cong [OF this] assms(2) show ?thesis by simp
    next
      case (Some u)
      with True assms(1) unfolded have "s' = u" by (auto split: if_splits)
      with recordTranslation_waitState [OF Some] v1 have "waitState s' = waitState s" by simp
      from holds_cong [OF this] assms(2) show ?thesis by simp
    qed
  next
    case False
    with assms(1) unfolded obtain s3 where
      r3: "(if fault = NoFault
                 then (case performCacheAccess (reqVaddr (reqStore s r)) tid r False accept s2 of
                         Inl e \<Rightarrow> Inl e
                       | Inr (sent, t) \<Rightarrow> Inr t)
                 else processTrap tid fault (Some r) s2) = Inr s3"
      and s': "s' = (snd (updateFetchStatus s3))\<lparr>stageStatus := fst (updateFetchStatus s3)\<rparr>"
      by (auto split: if_splits sum.splits prod.splits)
    have "holdsWaiting s3 t"
    proof (cases "fault = NoFault")
      case True
      with r3 obtain sent where
        "performCacheAccess (reqVaddr (reqStore s r)) tid r False accept s2 = Inr (sent, s3)"
        by (auto split: sum.splits)
      from performCacheAccess_holds [OF this w2] show ?thesis .
    next
      case False
      with r3 have "processTrap tid fault (Some r) s2 = Inr s3" by simp
      from processTrap_holds [OF this w2] show ?thesis .
    qed
    moreover have "waitState s' = waitState s3"
      by (simp add: s' updateFetchStatus_waitState)
    ultimately show ?thesis using holds_cong by blast
  qed
qed

lemma startTranslation_holds:
  assumes "startTranslation r tid ft orc s = Inr s'" and "holdsWaiting s t"
  shows "holdsWaiting s' t"
proof -
  define s2 where "s2 = (case ft of
                 None \<Rightarrow> s
               | Some f \<Rightarrow> s\<lparr>ftStore := (ftStore s)
                               (f := ftStartTranslation (ftStore s f) r)\<rparr>)
        \<lparr>outstandingTranslations := outstandingTranslations s + 1,
         extLog := extLog s @ [TranslateTiming r tid]\<rparr>"
  have v2: "waitState s2 = waitState s"
    by (simp add: s2_def waitState_def split: option.splits)
  have unfolded: "startTranslation r tid ft orc s =
     (case mmuSync orc of
          None \<Rightarrow> Inr (s2\<lparr>mmuPending := mmuPending s2 @ [(r, tid, ft)]\<rparr>)
        | Some (fault, paddr, lat) \<Rightarrow>
            finishTranslation fault r ft lat (icacheAccept orc) (mmuTranslated fault paddr r s2))"
    unfolding startTranslation_def Let_def s2_def by (simp split: option.splits)
  show ?thesis
  proof (cases "mmuSync orc")
    case None
    with assms(1) unfolded have "s' = s2\<lparr>mmuPending := mmuPending s2 @ [(r, tid, ft)]\<rparr>" by simp
    with v2 have "waitState s' = waitState s" by (simp add: waitState_def)
    from holds_cong [OF this] assms(2) show ?thesis by simp
  next
    case (Some a)
    obtain fault paddr lat where a: "a = (fault, paddr, lat)" by (cases a)
    with Some assms(1) unfolded have fin:
      "finishTranslation fault r ft lat (icacheAccept orc) (mmuTranslated fault paddr r s2) = Inr s'"
      by simp
    have "waitState (mmuTranslated fault paddr r s2) = waitState s"
      using v2 by (simp add: mmuTranslated_waitState)
    from holds_cong [OF this] assms(2) have "holdsWaiting (mmuTranslated fault paddr r s2) t" by simp
    from finishTranslation_holds [OF fin this] show ?thesis .
  qed
qed

lemma makeRequest_waitState:
  "makeRequest vaddr tid pc_addr ft s = (r, s') \<Longrightarrow> waitState s' = waitState s"
  by (auto simp: makeRequest_def waitState_def Let_def
           split: option.splits if_splits prod.splits)

lemma selectFetchTarget_waitState:
  "selectFetchTarget vaddr tid s = Inr (ft, s') \<Longrightarrow> waitState s' = waitState s"
  by (auto simp: selectFetchTarget_def waitState_def Let_def
           split: option.splits if_splits)

lemma fetchTargetSwitch_holds:
  assumes "fetchTargetSwitch fbpc tid f s = Inr (done, s')" and "holdsWaiting s t"
  shows "holdsWaiting s' t"
proof (cases "ftState (ftStore s f) = TranslationFailed")
  case True
  with assms(1) have "processTrap tid (ftFault (ftStore s f)) (ftReq (ftStore s f))
                 (s\<lparr>fetchStats := (fetchStats s)
                      \<lparr>ftTranslationFailed := ftTranslationFailed (fetchStats s) + 1\<rparr>\<rparr>) = Inr s'"
    by (auto simp: fetchTargetSwitch_def split: sum.splits)
  from processTrap_holds [OF this] assms(2) show ?thesis
    by (simp add: holdsWaiting_def)
next
  case False
  with assms show ?thesis
    by (auto simp: fetchTargetSwitch_def holdsWaiting_def Let_def
             split: FTState.splits if_splits)
qed

lemma fetchCacheLine_request_holds:
  assumes "fetchCacheLine_request fbpc tid pc_addr ft orc s = Inr (b, s')"
    and "holdsWaiting s t"
  shows "holdsWaiting s' t"
proof -
  obtain r s1 where mk: "makeRequest fbpc tid pc_addr ft s = (r, s1)"
    by (cases "makeRequest fbpc tid pc_addr ft s")
  have w1: "holdsWaiting s1 t"
    using holds_cong [OF makeRequest_waitState [OF mk]] assms(2) by simp
  show ?thesis
  proof (cases "reqPaddr (reqStore s1 r) \<noteq> None")
    case True
    with assms(1) mk obtain sent where pca:
      "performCacheAccess fbpc tid r False (icacheAccept orc)
         (s1\<lparr>memReq := (memReq s1)(tid := Some r)\<rparr>) = Inr (sent, s')"
      by (auto simp: fetchCacheLine_request_def Let_def split: sum.splits)
    show ?thesis
    proof (cases "t = tid")
      case True
      with performCacheAccess_demand_holds [OF pca] show ?thesis by simp
    next
      case False
      with w1 have "holdsWaiting (s1\<lparr>memReq := (memReq s1)(tid := Some r)\<rparr>) t"
        by (simp add: holdsWaiting_def)
      from performCacheAccess_holds [OF pca this] show ?thesis .
    qed
  next
    case False
    with assms(1) mk have st:
      "startTranslation r tid ft orc
         (s1\<lparr>memReq := (memReq s1)(tid := Some r),
             fetchStatus := (fetchStatus s1)(tid := ItlbWait)\<rparr>) = Inr s'"
      by (auto simp: fetchCacheLine_request_def Let_def split: sum.splits)
    have "holdsWaiting (s1\<lparr>memReq := (memReq s1)(tid := Some r),
             fetchStatus := (fetchStatus s1)(tid := ItlbWait)\<rparr>) t"
      using w1 by (simp add: holdsWaiting_def)
    from startTranslation_holds [OF st this] show ?thesis .
  qed
qed

lemma fetchCacheLine_holds:
  assumes "fetchCacheLine vaddr tid pc_addr ft orc s = Inr (b, s')" and "holdsWaiting s t"
  shows "holdsWaiting s' t"
proof -
  from assms(1) consider
      (same) "s' = s"
    | (fetched) ft1 s1 d s2 where
        "(if decoupledFrontEnd s then selectFetchTarget vaddr tid s else Inr (ft, s)) = Inr (ft1, s1)"
        "(case ft1 of None \<Rightarrow> Inr (False, s1)
                    | Some f \<Rightarrow> fetchTargetSwitch (fetchBufferAlignPC s vaddr) tid f s1) = Inr (d, s2)"
        "if d then s' = s2
         else fetchCacheLine_request (fetchBufferAlignPC s vaddr) tid pc_addr ft1 orc s2 = Inr (b, s')"
    unfolding fetchCacheLine_def Let_def
    by (auto split: if_splits sum.splits prod.splits)
  then show ?thesis
  proof cases
    case same
    with assms(2) show ?thesis by simp
  next
    case fetched
    have "waitState s1 = waitState s"
      using fetched(1) by (auto split: if_splits dest: selectFetchTarget_waitState)
    with assms(2) have h1: "holdsWaiting s1 t" using holds_cong by blast
    have h2: "holdsWaiting s2 t"
      using fetched(2) h1 by (auto split: option.splits dest: fetchTargetSwitch_holds)
    show ?thesis
      using fetched(3) h2 by (auto split: if_splits dest: fetchCacheLine_request_holds)
  qed
qed

lemma processFTQ_translations_holds:
  assumes "processFTQ_translations tid orc s = Inr s'" and "holdsWaiting s t"
  shows "holdsWaiting s' t"
proof (cases "outstandingTranslations s < maxOutstandingTranslations s")
  case False
  with assms show ?thesis
    by (auto simp: processFTQ_translations_def holdsWaiting_def)
next
  case True
  show ?thesis
  proof (cases "findAfterHead s tid requiresTranslation")
    case None
    with True assms show ?thesis by (simp add: processFTQ_translations_def)
  next
    case (Some f)
    obtain r s1 where mk:
      "makeRequest (fetchBufferAlignPC s (ftStartAddress (ftStore s f))) tid
         (ftStartAddress (ftStore s f)) None s = (r, s1)"
      by (cases "makeRequest (fetchBufferAlignPC s (ftStartAddress (ftStore s f))) tid
         (ftStartAddress (ftStore s f)) None s")
    with True Some assms(1) have st: "startTranslation r tid (Some f) orc s1 = Inr s'"
      by (simp add: processFTQ_translations_def Let_def)
    have "holdsWaiting s1 t"
      using holds_cong [OF makeRequest_waitState [OF mk]] assms(2) by simp
    from startTranslation_holds [OF st this] show ?thesis .
  qed
qed


lemma processFTQ_prefetch_holds:
  assumes "processFTQ_prefetch tid orc s = Inr s'" and "holdsWaiting s t"
  shows "holdsWaiting s' t"
proof -
  from assms(1) consider
      (same) "waitState s' = waitState s"
    | (sent) vaddr r b s1 where
        "performCacheAccess vaddr tid r True (icacheAccept orc) s = Inr (b, s1)"
        "waitState s' = waitState s1"
    unfolding processFTQ_prefetch_def
    by (auto simp: waitState_def split: if_splits option.splits sum.splits prod.splits)
  then show ?thesis
  proof cases
    case same
    with assms(2) show ?thesis using holds_cong by blast
  next
    case sent
    from performCacheAccess_holds [OF sent(1) assms(2)] sent(2) show ?thesis
      using holds_cong by blast
  qed
qed


lemma processFTQ_holds:
  assumes "processFTQ tid orc s = Inr s'" and "holdsWaiting s t"
  shows "holdsWaiting s' t"
  using assms unfolding processFTQ_def
  by (auto split: if_splits sum.splits
           dest: processFTQ_translations_holds processFTQ_prefetch_holds)


lemma trySatisfyPrefetch_waitState:
  "trySatisfyPrefetch tid p pkt s = (b, s') \<Longrightarrow> waitState s' = waitState s"
  by (auto simp: trySatisfyPrefetch_def waitState_def Let_def split: if_splits option.splits)


lemma processCacheCompletion_holds:
  assumes "processCacheCompletion p latency s = Inr s'" and "holdsWaiting s t"
  shows "holdsWaiting s' t"
proof -
  from assms(1) obtain pkt paddr where
    pkt: "pktStore s p = Some pkt"
    and pa: "getPaddr (reqStore s (pktReq pkt)) = Inr paddr"
    by (auto simp: processCacheCompletion_def Let_def split: option.splits sum.splits)
  define tid where "tid = cpuContextToThread s (reqContextId (reqStore s (pktReq pkt)))"
  define s1 where "s1 = s\<lparr>fetchesInProgress := fetchesInProgress s - {paddr}\<rparr>"
  have v1: "waitState s1 = waitState s" by (simp add: s1_def waitState_def)
  show ?thesis
  proof (cases "fetchStatus s tid \<noteq> IcacheWaitResponse \<or> Some (pktReq pkt) \<noteq> memReq s tid")
    case True
    obtain b s2 where tr: "trySatisfyPrefetch tid p pkt s1 = (b, s2)"
      by (cases "trySatisfyPrefetch tid p pkt s1")
    with True assms(1) pkt pa have "waitState s' = waitState s2"
      by (auto simp: processCacheCompletion_def Let_def tid_def s1_def waitState_def
               split: if_splits)
    with trySatisfyPrefetch_waitState [OF tr] v1 have "waitState s' = waitState s" by simp
    with assms(2) show ?thesis using holds_cong by blast
  next
    case False
    with assms(1) pkt pa show ?thesis
      using assms(2)
      by (auto simp: processCacheCompletion_def Let_def tid_def holdsWaiting_def
                     switchToActive_def checkStall_def
               split: if_splits sum.splits)
  qed
qed


lemma recvReqRetry_holds:
  assumes "recvReqRetry accept s = Inr s'" and "holdsWaiting s t"
  shows "holdsWaiting s' t"
  using assms
  by (auto simp: recvReqRetry_def holdsWaiting_def Let_def split: option.splits if_splits)


text \<open>
  \<open>doSquash\<close> keeps the invariant for the other threads, and for the squashed thread unless
  it waits for the retry of its packet.
\<close>


lemma doSquash_holds:
  assumes "doSquash new_pc squashInst tid s = Inr s'" and "holdsWaiting s t"
    and "t = tid \<longrightarrow> fetchStatus s tid \<noteq> IcacheWaitRetry"
  shows "holdsWaiting s' t"
  using assms
  by (auto simp: doSquash_def holdsWaiting_def Let_def split: if_splits)

lemma checkSignalsAndUpdate_holds:
  assumes "checkSignalsAndUpdate tid sig s = Inr (b, s')" and "holdsWaiting s t"
    and "\<not> squashesRetry (CheckSignals tid sig) s"
  shows "holdsWaiting s' t"
proof -
  define s1 where "s1 = (if decodeBlock sig then s\<lparr>stallsDecode := (stallsDecode s)(tid := True)\<rparr> else s)"
  define s2 where "s2 = (if decodeUnblock sig
                     then s1\<lparr>stallsDecode := (stallsDecode s1)(tid := False)\<rparr> else s1)"
  define status :: "bool \<Rightarrow> error + bool \<times> Fetch" where "status stalled =
                    (if stalled
                        \<and> fetchStatus s2 tid \<noteq> IcacheWaitResponse
                        \<and> fetchStatus s2 tid \<noteq> IcacheWaitRetry
                        \<and> fetchStatus s2 tid \<noteq> ItlbWait
                        \<and> fetchStatus s2 tid \<noteq> FTQEmpty
                        \<and> fetchStatus s2 tid \<noteq> QuiescePending
                     then Inr (True, s2\<lparr>fetchStatus := (fetchStatus s2)(tid := Blocked)\<rparr>)
                     else if fetchStatus s2 tid = Blocked \<or> fetchStatus s2 tid = Squashing
                     then
                       (if decoupledFrontEnd s2 \<and> ftq s2 tid = []
                        then Inr (True, s2\<lparr>fetchStatus := (fetchStatus s2)(tid := FTQEmpty)\<rparr>)
                        else Inr (True, s2\<lparr>fetchStatus := (fetchStatus s2)(tid := Running)\<rparr>))
                     else if fetchStatus s2 tid = FTQEmpty \<and> ftq s2 tid \<noteq> []
                     then Inr (True, s2\<lparr>fetchStatus := (fetchStatus s2)(tid := Running)\<rparr>)
                     else Inr (False, s2))" for stalled
  define rest where "rest =
             (if commitSquash sig
              then
                (case squash (commitPC sig) (commitDoneSeqNum sig) (commitSquashInst sig) tid s2 of
                   Inl e \<Rightarrow> Inl e
                 | Inr s3 \<Rightarrow> Inr (True, s3))
              else if decodeSquash sig \<and> fetchStatus s2 tid \<noteq> Squashing
              then
                (case squashFromDecode (decodeNextPC sig) (decodeSquashInst sig)
                        (decodeDoneSeqNum sig) tid s2 of
                   Inl e \<Rightarrow> Inl e
                 | Inr s3 \<Rightarrow> Inr (True, s3))
              else
                (case checkStall tid s2 of
                   Inl e \<Rightarrow> Inl e
                 | Inr stalled \<Rightarrow> status stalled))"
  have unfolded: "checkSignalsAndUpdate tid sig s =
     (if decodeUnblock sig \<and> \<not> stallsDecode s1 tid
        then Inl (AssertionFailed ''stalls[tid].decode'')
        else if decodeUnblock sig \<and> decodeBlock sig
        then Inl (AssertionFailed ''!fromDecode->decodeBlock[tid]'')
        else rest)"
    unfolding checkSignalsAndUpdate_def Let_def s1_def s2_def rest_def status_def by (rule refl)
  from assms(1) have rest: "rest = Inr (b, s')"
    unfolding unfolded by (simp split: if_splits)
  have v2: "waitState s2 = waitState s" by (simp add: s1_def s2_def waitState_def)
  then have h2: "holdsWaiting s2 t" using assms(2) holds_cong by blast
  have st: "fetchStatus s2 = fetchStatus s" using v2 by (simp add: waitState_def)
  show ?thesis
  proof (cases "commitSquash sig")
    case True
    with rest have
      "(case squash (commitPC sig) (commitDoneSeqNum sig) (commitSquashInst sig) tid s2 of
          Inl e \<Rightarrow> Inl e
        | Inr s3 \<Rightarrow> Inr (True, s3)) = Inr (b, s')"
      unfolding rest_def by simp
    then obtain s3 where
      d: "doSquash (commitPC sig) (commitSquashInst sig) tid s2 = Inr s3"
      and s': "s' = s3\<lparr>extLog := extLog s3 @ [RemoveInstsNotInROB tid]\<rparr>"
      unfolding squash_def by (auto split: sum.splits)
    from True assms(3) st have "fetchStatus s2 tid \<noteq> IcacheWaitRetry"
      by (simp add: squashesRetry_def)
    with doSquash_holds [OF d h2] have "holdsWaiting s3 t" by simp
    then show ?thesis by (simp add: s' holdsWaiting_def)
  next
    case False
    note nocommit = this
    show ?thesis
    proof (cases "decodeSquash sig \<and> fetchStatus s2 tid \<noteq> Squashing")
      case True
      with nocommit rest have
        "(case squashFromDecode (decodeNextPC sig) (decodeSquashInst sig)
                        (decodeDoneSeqNum sig) tid s2 of
            Inl e \<Rightarrow> Inl e
          | Inr s3 \<Rightarrow> Inr (True, s3)) = Inr (b, s')"
        unfolding rest_def by simp
      then obtain s3 where
        d: "doSquash (decodeNextPC sig) (decodeSquashInst sig) tid s2 = Inr s3"
        and s': "s' = s3\<lparr>extLog := extLog s3 @ [RemoveInstsUntil (decodeDoneSeqNum sig) tid]\<rparr>"
        unfolding squashFromDecode_def by (auto split: sum.splits)
      from True assms(3) st have "fetchStatus s2 tid \<noteq> IcacheWaitRetry"
        by (simp add: squashesRetry_def)
      with doSquash_holds [OF d h2] have "holdsWaiting s3 t" by simp
      then show ?thesis by (simp add: s' holdsWaiting_def)
    next
      case False
      with nocommit rest obtain stalled where "status stalled = Inr (b, s')"
        unfolding rest_def by (cases "checkStall tid s2") simp_all
      note status = this
      define blocked where "blocked \<longleftrightarrow> stalled
                        \<and> fetchStatus s2 tid \<noteq> IcacheWaitResponse
                        \<and> fetchStatus s2 tid \<noteq> IcacheWaitRetry
                        \<and> fetchStatus s2 tid \<noteq> ItlbWait
                        \<and> fetchStatus s2 tid \<noteq> FTQEmpty
                        \<and> fetchStatus s2 tid \<noteq> QuiescePending"
      have status_eq: "status stalled =
         (if blocked
          then Inr (True, s2\<lparr>fetchStatus := (fetchStatus s2)(tid := Blocked)\<rparr>)
          else if fetchStatus s2 tid = Blocked \<or> fetchStatus s2 tid = Squashing
          then
            (if decoupledFrontEnd s2 \<and> ftq s2 tid = []
             then Inr (True, s2\<lparr>fetchStatus := (fetchStatus s2)(tid := FTQEmpty)\<rparr>)
             else Inr (True, s2\<lparr>fetchStatus := (fetchStatus s2)(tid := Running)\<rparr>))
          else if fetchStatus s2 tid = FTQEmpty \<and> ftq s2 tid \<noteq> []
          then Inr (True, s2\<lparr>fetchStatus := (fetchStatus s2)(tid := Running)\<rparr>)
          else Inr (False, s2))"
        unfolding status_def blocked_def by (rule refl)
      show ?thesis
      proof (cases blocked)
        case True
        with status status_eq
        have "s' = s2\<lparr>fetchStatus := (fetchStatus s2)(tid := Blocked)\<rparr>" by simp
        moreover from True have "fetchStatus s2 tid \<noteq> IcacheWaitResponse"
          "fetchStatus s2 tid \<noteq> IcacheWaitRetry" "fetchStatus s2 tid \<noteq> ItlbWait"
          by (simp_all add: blocked_def)
        ultimately show ?thesis using h2 by (auto simp: holdsWaiting_def split: if_splits)
      next
        case False
        note notblocked = this
        show ?thesis
        proof (cases "fetchStatus s2 tid = Blocked \<or> fetchStatus s2 tid = Squashing")
          case True
          with notblocked status status_eq
          have "s' = s2\<lparr>fetchStatus := (fetchStatus s2)(tid := FTQEmpty)\<rparr>
                \<or> s' = s2\<lparr>fetchStatus := (fetchStatus s2)(tid := Running)\<rparr>"
            by (simp split: if_splits)
          with True h2 show ?thesis by (auto simp: holdsWaiting_def split: if_splits)
        next
          case False
          note notsquashing = this
          show ?thesis
          proof (cases "fetchStatus s2 tid = FTQEmpty \<and> ftq s2 tid \<noteq> []")
            case True
            with notblocked notsquashing status status_eq
            have "s' = s2\<lparr>fetchStatus := (fetchStatus s2)(tid := Running)\<rparr>" by simp
            with True h2 show ?thesis by (auto simp: holdsWaiting_def split: if_splits)
          next
            case False
            with notblocked notsquashing status status_eq have "s' = s2" by simp
            with h2 show ?thesis by simp
          qed
        qed
      qed
    qed
  qed
qed

lemma step_holds:
  assumes "step ev s = Inr s'" and "holdsWaiting s t" and "\<not> squashesRetry ev s"
  shows "holdsWaiting s' t"
proof (cases ev)
  case (CheckSignals tid sig)
  with assms show ?thesis
    by (auto simp: step_def split: sum.splits prod.splits dest: checkSignalsAndUpdate_holds)
next
  case (FetchLine vaddr tid pc_addr orc)
  with assms show ?thesis
    by (auto simp: step_def split: if_splits sum.splits prod.splits dest: fetchCacheLine_holds)
next
  case (ProcessFTQ tid orc)
  with assms show ?thesis
    by (auto simp: step_def split: if_splits dest: processFTQ_holds)
next
  case (TranslationDone i fault paddr lat accept)
  obtain req tid ft where p: "mmuPending s ! i = (req, tid, ft)" by (cases "mmuPending s ! i")
  define s1 where "s1 = mmuTranslated fault paddr req
                     (s\<lparr>mmuPending := take i (mmuPending s) @ drop (Suc i) (mmuPending s)\<rparr>)"
  have "waitState s1 = waitState s"
    by (simp add: s1_def mmuTranslated_def waitState_def)
  with assms(2) have h1: "holdsWaiting s1 t" using holds_cong by blast
  from assms(1) TranslationDone p have "finishTranslation fault req ft lat accept s1 = Inr s'"
    by (auto simp: step_def s1_def split: if_splits)
  from finishTranslation_holds [OF this h1] show ?thesis .
next
  case (CacheResponse p data depth latency)
  with assms(1) obtain pkt where pk: "pktStore s p = Some pkt"
    by (auto simp: step_def split: if_splits option.splits)
  define s1 where "s1 = s\<lparr>icacheInFlight := removeAll p (icacheInFlight s),
                     pktStore := (pktStore s)(p := Some (pkt\<lparr>pktData := data\<rparr>)),
                     reqStore := (reqStore s)
                       (pktReq pkt := (reqStore s (pktReq pkt))\<lparr>reqAccessDepth := depth\<rparr>)\<rparr>"
  have "waitState s1 = waitState s" by (simp add: s1_def waitState_def)
  with assms(2) have h1: "holdsWaiting s1 t" using holds_cong by blast
  from assms(1) CacheResponse pk have "processCacheCompletion p latency s1 = Inr s'"
    by (auto simp: step_def s1_def split: if_splits)
  from processCacheCompletion_holds [OF this h1] show ?thesis .
next
  case (ReqRetry accept)
  with assms show ?thesis
    by (auto simp: step_def split: if_splits dest: recvReqRetry_holds)
next
  case TrapEvent
  with assms(1) obtain tid fault req where
    "processTrap tid fault req (s\<lparr>processTrapEvent := None\<rparr>) = Inr s'"
    by (auto simp: step_def split: option.splits)
  moreover have "holdsWaiting (s\<lparr>processTrapEvent := None\<rparr>) t"
    using assms(2) by (simp add: holdsWaiting_def)
  ultimately show ?thesis by (rule processTrap_holds)
next
  case (Interrupt pending)
  with assms show ?thesis by (auto simp: step_def holdsWaiting_def)
next
  case (ResumeFetch tid)
  with assms show ?thesis by (auto simp: step_def holdsWaiting_def split: if_splits)
next
  case (FTQInsert tid start blk fallThrough)
  with assms show ?thesis by (auto simp: step_def holdsWaiting_def)
next
  case (FTQUpdateHead tid)
  with assms show ?thesis by (auto simp: step_def holdsWaiting_def split: if_splits)
next
  case (FTQSquash tid)
  with assms show ?thesis by (auto simp: step_def holdsWaiting_def)
qed


lemma run_waitsForRequest:
  "run evs s = Inr s' \<Longrightarrow> waitsForRequest s \<Longrightarrow> retrySquashFree evs s \<Longrightarrow> waitsForRequest s'"
proof (induction evs arbitrary: s)
  case Nil
  then show ?case by simp
next
  case (Cons ev evs)
  from Cons.prems(1) obtain s1 where s1: "step ev s = Inr s1" and r: "run evs s1 = Inr s'"
    by (auto split: sum.splits)
  from Cons.prems(3) s1 have nf: "\<not> squashesRetry ev s" and fr: "retrySquashFree evs s1"
    by simp_all
  have "waitsForRequest s1"
    unfolding waitsForRequest_def
  proof
    fix t
    from Cons.prems(2) have "holdsWaiting s t" by (simp add: waitsForRequest_def)
    from step_holds [OF s1 this nf] show "holdsWaiting s1 t" .
  qed
  from Cons.IH [OF r this fr] show ?case .
qed


lemma resetThreads_memReq:
  "memReq s = (\<lambda>t. None) \<Longrightarrow> memReq (fold resetThread ts s) = (\<lambda>t. None)"
  by (induction ts arbitrary: s) (auto simp: resetThread_def)


lemma started_waitsForRequest:
  assumes "started params = Inr s"
  shows "waitsForRequest s"
proof -
  from assms have "memReq s = (\<lambda>t. None)"
    by (auto simp: started_def construct_def startupStage_def resetStage_def switchToActive_def
             split: if_splits sum.splits intro!: resetThreads_memReq)
  then show ?thesis by (simp add: waitsForRequest_def holdsWaiting_def)
qed


lemma reachable_waitsForRequest:
  assumes "started params = Inr s0" and "run evs s0 = Inr s" and "retrySquashFree evs s0"
  shows "waitsForRequest s"
  using run_waitsForRequest [OF assms(2) started_waitsForRequest [OF assms(1)] assms(3)] .

subsection \<open>What a squash leaves\<close>

text \<open>\<open>doSquash\<close> returns whenever its assertion holds.\<close>

lemma doSquash_defined:
  "(retryTid s = tid \<longrightarrow> cacheBlocked s) \<Longrightarrow> \<exists>s'. doSquash new_pc squashInst tid s = Inr s'"
  by (simp add: doSquash_def Let_def)

text \<open>
  What \<open>doSquash\<close> leaves of the thread: an empty fetch queue, a retry slot that is not the
  thread's, and a demand request that is null when the thread waited for the cache response
  or for the translation, and the old one in every other state.
\<close>

lemma doSquash_fetchQueue:
  "doSquash new_pc squashInst tid s = Inr s' \<Longrightarrow> fetchQueue s' tid = []"
  by (auto simp: doSquash_def Let_def split: if_splits)

lemma doSquash_retryTid:
  "doSquash new_pc squashInst tid s = Inr s' \<Longrightarrow> tid \<noteq> InvalidThreadID \<Longrightarrow> retryTid s' \<noteq> tid"
  by (auto simp: doSquash_def Let_def split: if_splits)

lemma doSquash_memReq:
  "doSquash new_pc squashInst tid s = Inr s' \<Longrightarrow>
     memReq s' tid =
       (if fetchStatus s tid = IcacheWaitResponse \<or> fetchStatus s tid = ItlbWait
        then None else memReq s tid)"
  by (auto simp: doSquash_def Let_def split: if_splits)

text \<open>
  C1.  After a squash of a thread its fetch queue is empty, its demand request is null and
  the retry slot is not the thread's.  The code does not clear the demand request of a
  thread that waits for the retry of a rejected packet: in the spec's back-pressure scenario
  the thread is in \<open>IcacheWaitRetry\<close> with its request in \<open>memReq[0]\<close>, and after \<open>doSquash\<close> the
  request is still there, while the queue is empty and the retry slot is free.
\<close>

theorem doSquash_IcacheWaitRetry_keeps_memReq:
  "\<exists>s0 s s'. started scenarioParams = Inr s0 \<and> run retryTrace s0 = Inr s
      \<and> fetchStatus s 0 = IcacheWaitRetry \<and> memReq s 0 = Some 0
      \<and> doSquash \<lparr>instAddr = 0x2000, microPC = 0\<rparr> None 0 s = Inr s'
      \<and> memReq s' 0 = Some 0 \<and> fetchQueue s' 0 = [] \<and> retryTid s' = InvalidThreadID"
  by (simp add: retryTrace_def start_defs op_defs Let_def)

text \<open>
  C2.  At every reachable state a thread with a demand request waits for the translation,
  for the cache response or for the retry.  The run of the back-pressure scenario followed
  by a squash from commit reaches a state in which thread 0 is \<open>Squashing\<close> and still holds
  its demand request.  No other event breaks the invariant: by \<open>reachable_waitsForRequest\<close>
  it holds at the end of every run in which no thread is squashed while it waits for a retry.
\<close>

theorem squash_from_retry_breaks_memReq_invariant:
  "\<exists>s0 s. started scenarioParams = Inr s0
      \<and> run (retryTrace @ [CheckSignals 0 (commitSquashTo 0x2000)]) s0 = Inr s
      \<and> memReq s 0 = Some 0 \<and> fetchStatus s 0 = Squashing"
  by (simp add: retryTrace_def start_defs op_defs Let_def)

text \<open>
  C7.  \<open>doSquash\<close> adds to \<open>pfSquashed\<close> the value that \<open>outstandingPrefetches\<close> had before the
  squash and sets \<open>outstandingPrefetches\<close> to 0.  The hypothesis is the assertion of the
  source, under which \<open>doSquash\<close> returns.
\<close>

theorem doSquash_pfSquashed:
  assumes "retryTid s = tid \<longrightarrow> cacheBlocked s"
  shows "\<exists>s'. doSquash new_pc squashInst tid s = Inr s'
            \<and> pfSquashed (fetchStats s') = pfSquashed (fetchStats s) + outstandingPrefetches s
            \<and> outstandingPrefetches s' = 0"
  using assms by (simp add: doSquash_def Let_def)

theorem doSquash_pfSquashed_witness:
  "retryTid ((projr (started dfeParams))\<lparr>outstandingPrefetches := 2\<rparr>) = InvalidThreadID
   \<and> (\<exists>s'. doSquash \<lparr>instAddr = 0x2000, microPC = 0\<rparr> None 0
              ((projr (started dfeParams))\<lparr>outstandingPrefetches := 2\<rparr>) = Inr s'
          \<and> pfSquashed (fetchStats s') = 2 \<and> outstandingPrefetches s' = 0)"
  using doSquash_pfSquashed [of "(projr (started dfeParams))\<lparr>outstandingPrefetches := 2\<rparr>" 0
      "\<lparr>instAddr = 0x2000, microPC = 0\<rparr>" None]
  by (simp add: start_defs InvalidThreadID_def)

subsection \<open>Rejected and refused cache accesses\<close>



text \<open>
  C10.  \<open>performCacheAccess\<close> for a prefetch whose request has a physical address outside
  physical memory returns false, puts the thread into \<open>NoGoodAddr\<close> and nulls its demand
  request, whatever the thread was doing.  In the instance below the thread waits for the
  response to its demand packet when the prefetch of another request fails.
\<close>

theorem performCacheAccess_prefetch_bad_address:
  assumes "reqPaddr (reqStore s mem_req) = Some paddr" and "\<not> isMemAddr s paddr"
  shows "\<exists>s'. performCacheAccess vaddr tid mem_req True accept s = Inr (False, s')
           \<and> fetchStatus s' tid = NoGoodAddr \<and> memReq s' tid = None"
  using assms by (simp add: performCacheAccess_def getPaddr_def)

theorem performCacheAccess_prefetch_bad_address_witness:
  "reqPaddr (reqStore demandInFlight 1) = Some 0x90000000
   \<and> \<not> isMemAddr demandInFlight 0x90000000
   \<and> fetchStatus demandInFlight 0 = IcacheWaitResponse
   \<and> memReq demandInFlight 0 = Some 0
   \<and> (\<exists>s'. performCacheAccess 0x1040 0 1 True True demandInFlight = Inr (False, s')
           \<and> fetchStatus s' 0 = NoGoodAddr \<and> memReq s' 0 = None)"
  using performCacheAccess_prefetch_bad_address
      [OF demandInFlight_facts(1) demandInFlight_facts(2), of "0x1040" 0 True]
    demandInFlight_facts
  by blast

subsection \<open>The round-robin arbiter\<close>

text \<open>
  The loop of \<open>roundRobin\<close> stops at the first entry of the list whose thread can fetch:
  \<open>takeWhile\<close> gives the entries it skips and \<open>dropWhile\<close> the entry it stops at and the rest.
\<close>

lemma roundRobin_loop_eq:
  "\<forall>t\<in>set xs. t \<le> numThreads s \<Longrightarrow>
   roundRobin_loop s seen xs =
     (case dropWhile (\<lambda>t. \<not> fetchable (fetchStatus s t)) xs of
        [] \<Rightarrow> Inr (InvalidThreadID, seen @ xs)
      | t # rest \<Rightarrow>
          Inr (t, seen @ takeWhile (\<lambda>t. \<not> fetchable (fetchStatus s t)) xs @ rest @ [t]))"
proof (induction xs arbitrary: seen)
  case Nil
  then show ?case by simp
next
  case (Cons a xs)
  show ?case
  proof (cases "fetchable (fetchStatus s a)")
    case True
    with Cons.prems show ?thesis by simp
  next
    case False
    have call: "roundRobin_loop s seen (a # xs) = roundRobin_loop s (seen @ [a]) xs"
      using False Cons.prems by simp
    have ih: "roundRobin_loop s (seen @ [a]) xs =
      (case dropWhile (\<lambda>t. \<not> fetchable (fetchStatus s t)) xs of
         [] \<Rightarrow> Inr (InvalidThreadID, (seen @ [a]) @ xs)
       | t # rest \<Rightarrow>
           Inr (t, (seen @ [a]) @ takeWhile (\<lambda>t. \<not> fetchable (fetchStatus s t)) xs
                     @ rest @ [t]))"
      using Cons.prems by (intro Cons.IH) simp
    have d: "dropWhile (\<lambda>t. \<not> fetchable (fetchStatus s t)) (a # xs)
               = dropWhile (\<lambda>t. \<not> fetchable (fetchStatus s t)) xs"
      and t: "takeWhile (\<lambda>t. \<not> fetchable (fetchStatus s t)) (a # xs)
               = a # takeWhile (\<lambda>t. \<not> fetchable (fetchStatus s t)) xs"
      using False by simp_all
    show ?thesis
      unfolding call ih d t
      by (cases "dropWhile (\<lambda>t. \<not> fetchable (fetchStatus s t)) xs")
         (simp_all del: dropWhile_eq_Nil_conv)
  qed
qed

text \<open>
  C8.  \<open>roundRobin\<close> walks the priority list in order and skips the threads whose status is
  not Running, IcacheAccessComplete or Idle; the first thread that can fetch is taken out
  of its place, appended to the list and returned; when no thread can fetch the result is
  \<open>InvalidThreadID\<close> and the list is as it was.  The hypothesis is the assertion of the loop.
  The instance below is the spec's scenario 6, selected twice in a row.
\<close>

theorem roundRobin_rotates:
  assumes "\<forall>t\<in>set (priorityList s). t \<le> numThreads s"
  shows "roundRobin s =
     (case dropWhile (\<lambda>t. \<not> fetchable (fetchStatus s t)) (priorityList s) of
        [] \<Rightarrow> Inr (InvalidThreadID, s)
      | t # rest \<Rightarrow>
          Inr (t, s\<lparr>priorityList :=
                     takeWhile (\<lambda>t. \<not> fetchable (fetchStatus s t)) (priorityList s)
                       @ rest @ [t]\<rparr>))"
proof -
  have same: "s\<lparr>priorityList := priorityList s\<rparr> = s" by simp
  show ?thesis
    unfolding roundRobin_def roundRobin_loop_eq [OF assms, of "[]"]
    by (cases "dropWhile (\<lambda>t. \<not> fetchable (fetchStatus s t)) (priorityList s)")
       (simp_all add: same del: dropWhile_eq_Nil_conv)
qed

theorem roundRobin_rotates_witness:
  "priorityList arbiterScenario = [0, 1]
   \<and> numThreads arbiterScenario = 2
   \<and> fetchStatus arbiterScenario 0 = Running
   \<and> fetchStatus arbiterScenario 1 = ItlbWait
   \<and> roundRobin arbiterScenario = Inr (0, arbiterScenario\<lparr>priorityList := [1, 0]\<rparr>)
   \<and> roundRobin (arbiterScenario\<lparr>priorityList := [1, 0]\<rparr>)
        = Inr (0, arbiterScenario\<lparr>priorityList := [1, 0]\<rparr>)"
proof -
  have a: "\<forall>t\<in>set (priorityList arbiterScenario). t \<le> numThreads arbiterScenario"
    by (simp add: arbiterScenario_facts)
  have b: "\<forall>t\<in>set (priorityList (arbiterScenario\<lparr>priorityList := [1, 0]\<rparr>)).
          t \<le> numThreads (arbiterScenario\<lparr>priorityList := [1, 0]\<rparr>)"
    by (simp add: arbiterScenario_facts)
  show ?thesis
    using roundRobin_rotates [OF a] roundRobin_rotates [OF b]
    by (simp add: arbiterScenario_facts fetchable_def)
qed

subsection \<open>A fetch pass without a thread\<close>

text \<open>
  When the loop of \<open>roundRobin\<close> returns, it returns \<open>InvalidThreadID\<close> and the list it was
  given, or a thread of the list.
\<close>

lemma roundRobin_loop_result:
  "roundRobin_loop s seen xs = Inr (t, pl) \<Longrightarrow> (t = InvalidThreadID \<and> pl = seen @ xs) \<or> t \<in> set xs"
proof (induction xs arbitrary: seen)
  case Nil
  then show ?case by simp
next
  case (Cons a xs)
  show ?case
  proof (cases "fetchable (fetchStatus s a)")
    case True
    with Cons.prems show ?thesis by (simp split: if_splits)
  next
    case False
    with Cons.prems have "roundRobin_loop s (seen @ [a]) xs = Inr (t, pl)"
      by (simp split: if_splits)
    from Cons.IH [OF this] show ?thesis by auto
  qed
qed

lemma roundRobin_none:
  assumes "roundRobin s = Inr (InvalidThreadID, s1)" and "InvalidThreadID \<notin> set (priorityList s)"
  shows "s1 = s"
proof -
  from assms(1) obtain pl where loop: "roundRobin_loop s [] (priorityList s) = Inr (InvalidThreadID, pl)"
    and s1: "s1 = s\<lparr>priorityList := pl\<rparr>"
    by (auto simp: roundRobin_def split: sum.splits)
  from roundRobin_loop_result [OF loop] assms(2) have "pl = priorityList s" by simp
  with s1 show ?thesis by simp
qed

lemma getFetchingThread_none:
  assumes "getFetchingThread s = Inr (InvalidThreadID, s1)" and "InvalidThreadID \<notin> set (priorityList s)"
  shows "s1 = s"
proof (cases "numThreads s > 1")
  case True
  show ?thesis
  proof (cases "fetchPolicy s")
    case RoundRobin
    with True assms(1) have "roundRobin s = Inr (InvalidThreadID, s1)"
      by (simp add: getFetchingThread_def split: if_splits)
    then show ?thesis using assms(2) by (rule roundRobin_none)
  qed (use True assms(1) in \<open>auto simp: getFetchingThread_def branchCount_def split: if_splits\<close>)
next
  case False
  with assms(1) show ?thesis
    by (auto simp: getFetchingThread_def split: if_splits list.splits)
qed

text \<open>
  C9, as the code has it.  When the arbiter returns \<open>InvalidThreadID\<close>, \<open>fetch\<close> sets
  \<open>threadFetched\<close> to \<open>numFetchingThreads\<close> and, with one thread only, calls \<open>profileStall(0)\<close>;
  with more threads it counts nothing.  No instruction is built: the fetch queues, \<open>numInst\<close>,
  the CPU's sequence counter, \<open>wroteToTimeBuffer\<close>, the thread statuses and the calls to the
  collaborators are as before, and the state differs from the old one in \<open>threadFetched\<close>
  and in the stall counters at most.  The hypotheses are that the priority list holds
  threads only and the assertion \<open>!cpu->switchedOut()\<close>.
\<close>

theorem fetch_without_fetchable_thread:
  assumes "getFetchingThread s = Inr (InvalidThreadID, s1)"
    and "InvalidThreadID \<notin> set (priorityList s)"
    and "\<not> cpuSwitchedOut s"
  shows "\<exists>s'. fetch fetchFrom status_change s = Inr (status_change, s')
     \<and> s' = (if numThreads s = 1
              then profileStall 0 (s\<lparr>threadFetched := numFetchingThreads s\<rparr>)
              else s\<lparr>threadFetched := numFetchingThreads s\<rparr>)
     \<and> fetchQueue s' = fetchQueue s \<and> numInst s' = numInst s \<and> cpuInstSeq s' = cpuInstSeq s
     \<and> wroteToTimeBuffer s' = wroteToTimeBuffer s \<and> fetchStatus s' = fetchStatus s
     \<and> extLog s' = extLog s
     \<and> s'\<lparr>threadFetched := threadFetched s, fetchStats := fetchStats s,
           cpuIcacheStallCycles := cpuIcacheStallCycles s\<rparr> = s
     \<and> (fetchStats s')\<lparr>pendingDrainCycles := pendingDrainCycles (fetchStats s),
           noActiveThreadStallCycles := noActiveThreadStallCycles (fetchStats s),
           blockedCycles := blockedCycles (fetchStats s),
           squashCycles := squashCycles (fetchStats s),
           tlbCycles := tlbCycles (fetchStats s),
           ftqStallCycles := ftqStallCycles (fetchStats s),
           pendingTrapStallCycles := pendingTrapStallCycles (fetchStats s),
           pendingQuiesceStallCycles := pendingQuiesceStallCycles (fetchStats s),
           icacheWaitRetryStallCycles := icacheWaitRetryStallCycles (fetchStats s)\<rparr> = fetchStats s"
proof -
  have s1: "s1 = s" using assms(1,2) by (rule getFetchingThread_none)
  show ?thesis
    using assms(1,3) unfolding s1
    by (simp add: fetch_def profileStall_def Let_def)
qed

theorem fetch_without_fetchable_thread_witness:
  "getFetchingThread translatedDemand = Inr (InvalidThreadID, translatedDemand)
   \<and> priorityList translatedDemand = [0]
   \<and> \<not> cpuSwitchedOut translatedDemand
   \<and> numThreads translatedDemand = 1
   \<and> fetchStatus translatedDemand 0 = ItlbWait
   \<and> (\<exists>s'. fetch fetchNothing False translatedDemand = Inr (False, s')
          \<and> s' = profileStall 0 (translatedDemand\<lparr>threadFetched := 1\<rparr>)
          \<and> tlbCycles (fetchStats s') = 1
          \<and> fetchQueue s' = fetchQueue translatedDemand)"
proof -
  have a: "InvalidThreadID \<notin> set (priorityList translatedDemand)"
    by (simp add: translatedDemand_fetch_facts InvalidThreadID_def)
  have b: "\<not> cpuSwitchedOut translatedDemand"
    by (simp add: translatedDemand_fetch_facts)
  from fetch_without_fetchable_thread [OF translatedDemand_fetch_facts(1) a b, of fetchNothing False]
  show ?thesis
    by (auto simp: translatedDemand_fetch_facts translatedDemand_facts profileStall_def Let_def)
qed

text \<open>
  C9, as the spec states it, fails with two threads: both wait for their translation, the
  arbiter returns \<open>InvalidThreadID\<close>, and the pass leaves every counter as it was, where
  \<open>profileStall(0)\<close> would have counted a cycle of TLB stall.
\<close>

theorem fetch_two_threads_no_stall_accounting:
  "getFetchingThread bothWaiting = Inr (InvalidThreadID, bothWaiting)
   \<and> fetch fetchNothing False bothWaiting = Inr (False, bothWaiting\<lparr>threadFetched := 1\<rparr>)
   \<and> fetchStats (bothWaiting\<lparr>threadFetched := 1\<rparr>) = fetchStats bothWaiting
   \<and> tlbCycles (fetchStats (profileStall 0 (bothWaiting\<lparr>threadFetched := 1\<rparr>)))
       = tlbCycles (fetchStats bothWaiting) + 1"
  by (simp add: bothWaiting_facts getFetchingThread_def fetch_def roundRobin_def fetchable_def
        profileStall_def InvalidThreadID_def Let_def)


subsection \<open>Requests that reuse a fetch target\<close>

text \<open>
  The block address of the target and the offset of the address in the block have no bit
  in common, so that adding them, as the source does, is their bitwise or.
\<close>

lemma block_offset_add_eq_or:
  fixes a v m :: Addr
  shows "(a AND NOT m) + (v AND m) = (a AND NOT m) OR (v AND m)"
proof (rule disjunctive_add_eq_or)
  show "(a AND NOT m) AND (v AND m) = 0"
    by (rule bit_eqI) (auto simp: bit_simps)
qed

lemma performCacheAccess_translations:
  "performCacheAccess vaddr tid r prefetch accept s = Inr (b, s') \<Longrightarrow>
     outstandingTranslations s' = outstandingTranslations s \<and> mmuPending s' = mmuPending s
     \<and> translationsStarted s' = translationsStarted s"
  by (auto simp: performCacheAccess_def translationsStarted_def Let_def split: sum.splits if_splits)

lemma makeRequest_translations:
  "makeRequest vaddr tid pc_addr ft s = (r, s') \<Longrightarrow>
     outstandingTranslations s' = outstandingTranslations s \<and> mmuPending s' = mmuPending s
     \<and> extLog s' = extLog s"
  by (auto simp: makeRequest_def Let_def split: option.splits if_splits prod.splits)

text \<open>
  C5.  When the fetch target holds a request for the address asked for, \<open>makeRequest\<close>
  returns that request, which is what \<open>popReq\<close> hands back, and leaves the target detached
  and ReadyToFetch; when the target also has a physical address and covers the block of the
  address, the request gets the block of that physical address or-ed with the offset of
  the address in its block.  When the request that \<open>makeRequest\<close> returns has a physical
  address, the end of \<open>fetchCacheLine\<close> is the call of \<open>performCacheAccess\<close> for a demand, and
  no translation is started: \<open>translateTiming\<close> is not called, \<open>outstandingTranslations\<close> and
  the translations that the MMU holds are as before.
\<close>

theorem makeRequest_reuses_request_and_paddr:
  "(ftReq (ftStore s f) = Some r \<and> reqVaddr (reqStore s r) = vaddr \<longrightarrow>
      fst (makeRequest vaddr tid pc_addr (Some f) s) = r
      \<and> fst (popReq (ftStore s f)) = Some r
      \<and> ftStore (snd (makeRequest vaddr tid pc_addr (Some f) s)) f
           = markReady (snd (popReq (ftStore s f)))
      \<and> (ftPaddr (ftStore s f) = Some ft_paddr
           \<and> ftBlkAddr (ftStore s f) = cacheBlockAligned s vaddr \<longrightarrow>
         reqPaddr (reqStore (snd (makeRequest vaddr tid pc_addr (Some f) s)) r)
           = Some ((ft_paddr AND NOT (cacheBlkSize s - 1)) OR (vaddr AND (cacheBlkSize s - 1)))))
   \<and> (makeRequest fetchBufferBlockPC tid pc_addr ft s = (req, s1)
        \<and> reqPaddr (reqStore s1 req) = Some paddr \<longrightarrow>
      fetchCacheLine_request fetchBufferBlockPC tid pc_addr ft orc s
        = (case performCacheAccess fetchBufferBlockPC tid req False (icacheAccept orc)
                  (s1\<lparr>memReq := (memReq s1)(tid := Some req)\<rparr>) of
             Inl e \<Rightarrow> Inl e
           | Inr (sent, s2) \<Rightarrow> Inr (True, s2))
      \<and> (\<forall>b s'. fetchCacheLine_request fetchBufferBlockPC tid pc_addr ft orc s = Inr (b, s') \<longrightarrow>
            translationsStarted s' = translationsStarted s
            \<and> outstandingTranslations s' = outstandingTranslations s
            \<and> mmuPending s' = mmuPending s))"
proof (intro conjI impI)
  assume a: "ftReq (ftStore s f) = Some r \<and> reqVaddr (reqStore s r) = vaddr"
  then show "fst (makeRequest vaddr tid pc_addr (Some f) s) = r"
    by (simp add: makeRequest_def popReq_def Let_def split: option.splits)
  from a show "fst (popReq (ftStore s f)) = Some r"
    by (simp add: popReq_def)
  from a show "ftStore (snd (makeRequest vaddr tid pc_addr (Some f) s)) f
           = markReady (snd (popReq (ftStore s f)))"
    by (simp add: makeRequest_def popReq_def markReady_def Let_def split: option.splits)
  assume b: "ftPaddr (ftStore s f) = Some ft_paddr
           \<and> ftBlkAddr (ftStore s f) = cacheBlockAligned s vaddr"
  with a show "reqPaddr (reqStore (snd (makeRequest vaddr tid pc_addr (Some f) s)) r)
           = Some ((ft_paddr AND NOT (cacheBlkSize s - 1)) OR (vaddr AND (cacheBlkSize s - 1)))"
    by (simp add: makeRequest_def popReq_def markReady_def cacheBlockAligned_def Let_def
          block_offset_add_eq_or)
next
  assume c: "makeRequest fetchBufferBlockPC tid pc_addr ft s = (req, s1)
        \<and> reqPaddr (reqStore s1 req) = Some paddr"
  then show eq: "fetchCacheLine_request fetchBufferBlockPC tid pc_addr ft orc s
        = (case performCacheAccess fetchBufferBlockPC tid req False (icacheAccept orc)
                  (s1\<lparr>memReq := (memReq s1)(tid := Some req)\<rparr>) of
             Inl e \<Rightarrow> Inl e
           | Inr (sent, s2) \<Rightarrow> Inr (True, s2))"
    by (simp add: fetchCacheLine_request_def Let_def)
  show "\<forall>b s'. fetchCacheLine_request fetchBufferBlockPC tid pc_addr ft orc s = Inr (b, s') \<longrightarrow>
            translationsStarted s' = translationsStarted s
            \<and> outstandingTranslations s' = outstandingTranslations s
            \<and> mmuPending s' = mmuPending s"
  proof (intro allI impI)
    fix b s'
    assume r: "fetchCacheLine_request fetchBufferBlockPC tid pc_addr ft orc s = Inr (b, s')"
    with eq obtain sent where
      p: "performCacheAccess fetchBufferBlockPC tid req False (icacheAccept orc)
            (s1\<lparr>memReq := (memReq s1)(tid := Some req)\<rparr>) = Inr (sent, s')"
      by (auto split: sum.splits)
    from makeRequest_translations c
    have "outstandingTranslations s1 = outstandingTranslations s \<and> mmuPending s1 = mmuPending s
       \<and> extLog s1 = extLog s" by blast
    with performCacheAccess_translations [OF p]
    show "translationsStarted s' = translationsStarted s
            \<and> outstandingTranslations s' = outstandingTranslations s
            \<and> mmuPending s' = mmuPending s"
      by (simp add: translationsStarted_def)
  qed
qed


theorem makeRequest_reuses_request_and_paddr_witness:
  "ftReq (ftStore translatedHead 1) = Some 0
   \<and> reqVaddr (reqStore translatedHead 0) = 0x1040
   \<and> ftPaddr (ftStore translatedHead 1) = Some 0x5040
   \<and> ftBlkAddr (ftStore translatedHead 1) = cacheBlockAligned translatedHead 0x1040
   \<and> fst (makeRequest 0x1040 0 0x1040 (Some 1) translatedHead) = 0
   \<and> ftState (ftStore (snd (makeRequest 0x1040 0 0x1040 (Some 1) translatedHead)) 1) = ReadyToFetch
   \<and> ftReq (ftStore (snd (makeRequest 0x1040 0 0x1040 (Some 1) translatedHead)) 1) = None
   \<and> reqPaddr (reqStore (snd (makeRequest 0x1040 0 0x1040 (Some 1) translatedHead)) 0) = Some 0x5040
   \<and> (\<exists>s'. fetchCacheLine_request 0x1040 0 0x1040 (Some 1) acceptingCache translatedHead
               = Inr (True, s')
          \<and> fetchCacheLine 0x1040 0 0x1040 None acceptingCache translatedHead
               = Inr (True, s'\<lparr>fetchStats := (fetchStats s')\<lparr>ftTranslationReady := 1\<rparr>\<rparr>)
          \<and> fetchStatus s' 0 = IcacheWaitResponse
          \<and> memReq s' 0 = Some 0
          \<and> translationsStarted s' = translationsStarted translatedHead
          \<and> mmuPending s' = [])"
  using makeRequest_reuses_request_and_paddr
    [of translatedHead 1 0 "0x1040" 0 "0x1040" "0x5040" "0x1040" "Some 1"
        0 "snd (makeRequest 0x1040 0 0x1040 (Some 1) translatedHead)" "0x5040" acceptingCache]
  by (simp add: translatedHead_def translatedHeadTrace_def acceptingCache_def translationsStarted_def
        start_defs op_defs ftq_defs Let_def)


subsection \<open>Responses of the cache\<close>

text \<open>
  What \<open>processCacheCompletion\<close> does with a response whose packet is live and whose
  request has a physical address.  Every response takes its address out of
  \<open>fetchesInProgress\<close>.  The response to the demand request of a thread in
  \<open>IcacheWaitResponse\<close> fills the fetch buffer of that thread and of no other, sets it valid,
  moves the thread to \<open>IcacheAccessComplete\<close>, or to \<open>Blocked\<close> under a drain stall, nulls
  its demand request and deletes the packet; the fetch targets and the count of prefetches
  stay.
\<close>

lemma processCacheCompletion_demand:
  assumes "pktStore s p = Some pkt"
    and "reqPaddr (reqStore s (pktReq pkt)) = Some paddr"
    and "tid = cpuContextToThread s (reqContextId (reqStore s (pktReq pkt)))"
    and "fetchStatus s tid = IcacheWaitResponse" and "memReq s tid = Some (pktReq pkt)"
    and "\<not> cpuSwitchedOut s" and "stallsDrain s tid \<longrightarrow> cpuDraining s"
  shows "\<exists>s'. processCacheCompletion p latency s = Inr s'
     \<and> fetchesInProgress s' = fetchesInProgress s - {paddr}
     \<and> fetchBuffer s' = (fetchBuffer s)(tid := take (unat (fetchBufferSize s)) (pktData pkt))
     \<and> fetchBufferValid s' = (fetchBufferValid s)(tid := True)
     \<and> fetchStatus s' = (fetchStatus s)
           (tid := if stallsDrain s tid then Blocked else IcacheAccessComplete)
     \<and> memReq s' = (memReq s)(tid := None)
     \<and> pktStore s' = (pktStore s)(p := None)
     \<and> stageStatus s' = Active
     \<and> ftStore s' = ftStore s
     \<and> outstandingPrefetches s' = outstandingPrefetches s
     \<and> icacheSquashes (fetchStats s') = icacheSquashes (fetchStats s)
     \<and> pfReceived (fetchStats s') = pfReceived (fetchStats s)"
  using assms
  by (cases "stageStatus s")
     (auto simp: processCacheCompletion_def getPaddr_def checkStall_def switchToActive_def Let_def)

text \<open>
  Any other response, with the decoupled front-end, whose request an entry after the head
  of the thread's queue holds: that entry is marked ReadyToFetch, \<open>outstandingPrefetches\<close>
  goes down by one, the prefetch is counted as received and the packet is deleted; nothing
  else changes, the fetch buffers and the thread statuses included.
\<close>

lemma processCacheCompletion_prefetch:
  assumes "pktStore s p = Some pkt"
    and "reqPaddr (reqStore s (pktReq pkt)) = Some paddr"
    and "tid = cpuContextToThread s (reqContextId (reqStore s (pktReq pkt)))"
    and "\<not> (fetchStatus s tid = IcacheWaitResponse \<and> memReq s tid = Some (pktReq pkt))"
    and "decoupledFrontEnd s"
    and "findAfterHead s tid (\<lambda>ft. ftReq ft = Some (pktReq pkt)) = Some f"
  shows "processCacheCompletion p latency s =
     Inr (s\<lparr>fetchesInProgress := fetchesInProgress s - {paddr},
            ftStore := (ftStore s)(f := markReady (ftStore s f)),
            outstandingPrefetches := outstandingPrefetches s - 1,
            fetchStats := (fetchStats s)
              \<lparr>pfReceived := pfReceived (fetchStats s) + 1,
               pfInCache := pfInCache (fetchStats s)
                 + (if reqAccessDepth (reqStore s (pktReq pkt)) = 0 then 1 else 0)\<rparr>,
            pktStore := (pktStore s)(p := None)\<rparr>)"
  using assms
  by (auto simp: processCacheCompletion_def trySatisfyPrefetch_def getPaddr_def
                 findAfterHead_def Let_def)

text \<open>
  Any other response whose request no entry of the thread's queue holds is counted in
  \<open>icacheSquashes\<close> and deleted, and nothing else changes.
\<close>

lemma processCacheCompletion_unheld:
  assumes "pktStore s p = Some pkt"
    and "reqPaddr (reqStore s (pktReq pkt)) = Some paddr"
    and "tid = cpuContextToThread s (reqContextId (reqStore s (pktReq pkt)))"
    and "\<not> (fetchStatus s tid = IcacheWaitResponse \<and> memReq s tid = Some (pktReq pkt))"
    and "\<forall>f \<in> set (ftq s tid). ftReq (ftStore s f) \<noteq> Some (pktReq pkt)"
  shows "processCacheCompletion p latency s =
     Inr (s\<lparr>fetchesInProgress := fetchesInProgress s - {paddr},
            fetchStats := (fetchStats s)
              \<lparr>icacheSquashes := icacheSquashes (fetchStats s) + 1\<rparr>,
            pktStore := (pktStore s)(p := None)\<rparr>)"
proof -
  have "find (\<lambda>f. ftReq (ftStore s f) = Some (pktReq pkt)) (tl (ftq s tid)) = None"
    using assms(5) by (cases "ftq s tid") (auto simp: find_None_iff)
  with assms(1-4) show ?thesis
    by (auto simp: processCacheCompletion_def trySatisfyPrefetch_def getPaddr_def
                   findAfterHead_def Let_def)
qed

text \<open>
  The spec's scenario 4, a prefetch hit: in the run with a prefetch behind a demand the
  response to the prefetch marks the second target ReadyToFetch and is counted as received
  and as found in the cache.
\<close>

lemma prefetch_hit_scenario:
  "processCacheCompletion 1 5 prefetchBehindDemand =
     Inr (prefetchBehindDemand
           \<lparr>fetchesInProgress := fetchesInProgress prefetchBehindDemand - {0x5040},
            ftStore := (ftStore prefetchBehindDemand)
                         (1 := markReady (ftStore prefetchBehindDemand 1)),
            outstandingPrefetches := 0,
            fetchStats := (fetchStats prefetchBehindDemand)
              \<lparr>pfReceived := 1, pfInCache := 1\<rparr>,
            pktStore := (pktStore prefetchBehindDemand)(1 := None)\<rparr>)"
proof -
  have "reqAccessDepth (reqStore prefetchBehindDemand 1) = 0"
    "pfReceived (fetchStats prefetchBehindDemand) = 0"
    "pfInCache (fetchStats prefetchBehindDemand) = 0"
    by (simp_all add: prefetchBehindDemand_def prefetchBehindDemandTrace_def start_defs op_defs
          ftq_defs cache_defs acceptingCache_def Let_def)
  with processCacheCompletion_prefetch
      [of prefetchBehindDemand 1 "\<lparr>pktReq = 1, pktData = replicate 16 0\<rparr>" "0x5040" 0 1 5]
    prefetchBehindDemand_facts
  show ?thesis by simp
qed

text \<open>
  C3.  On a cache completion the fetch buffer is written only for the demand request of a
  thread in \<open>IcacheWaitResponse\<close>; another packet whose request an entry of the queue holds
  marks that entry Ready, takes \<open>outstandingPrefetches\<close> down by one and is deleted; any
  other packet is counted in \<open>icacheSquashes\<close> and deleted.  \<open>trySatisfyPrefetch\<close> searches
  the queue with \<open>findAfterHead\<close>, under the comment ``Iterate over all fetch targets in
  the FTQ'', so it does not see the head.  In the run below the prefetched target has
  become the head and holds the request of the prefetch packet 1, which is in flight.  The
  response to it leaves the target in \<open>PrefetchInProgress\<close> and \<open>outstandingPrefetches\<close> at 1,
  and is counted as a squashed miss and not as a received prefetch.  When the interrupt is
  cleared, \<open>fetchCacheLine\<close> takes the prefetch over as the demand, and the thread waits in
  \<open>IcacheWaitResponse\<close> for a packet that the cache no longer holds.
\<close>

theorem prefetch_response_for_head_is_lost:
  "\<exists>s0 s s1 s2. started dfeParams = Inr s0 \<and> run prefetchForHeadTrace s0 = Inr s
      \<and> ftq s 0 = [1] \<and> ftReq (ftStore s 1) = Some 1
      \<and> ftState (ftStore s 1) = PrefetchInProgress
      \<and> map_option pktReq (pktStore s 1) = Some 1 \<and> icacheInFlight s = [1]
      \<and> fetchStatus s 0 = Running \<and> memReq s 0 = None
      \<and> outstandingPrefetches s = 1
      \<and> step (CacheResponse 1 (replicate 16 0) 1 5) s = Inr s1
      \<and> ftState (ftStore s1 1) = PrefetchInProgress
      \<and> outstandingPrefetches s1 = 1
      \<and> icacheSquashes (fetchStats s1) = icacheSquashes (fetchStats s) + 1
      \<and> pfReceived (fetchStats s1) = pfReceived (fetchStats s)
      \<and> pktStore s1 1 = None \<and> icacheInFlight s1 = []
      \<and> run [Interrupt False, FetchLine 0x1040 0 0x1040 acceptingCache] s1 = Inr s2
      \<and> fetchStatus s2 0 = IcacheWaitResponse \<and> memReq s2 0 = Some 1
      \<and> icacheInFlight s2 = [] \<and> retryPkt s2 = None"
  by (simp add: prefetchForHeadTrace_def prefetchBehindDemandTrace_def start_defs op_defs
        ftq_defs cache_defs acceptingCache_def Let_def)

subsection \<open>The limits on translations and prefetches\<close>

text \<open>
  The functions that \<open>finishTranslation\<close> and \<open>fetchCacheLine\<close> call leave the counters, their
  ceilings, the translations of the MMU and the numbers of translations and prefetches
  issued as they are.
\<close>

lemma performCacheAccess_issueState:
  "performCacheAccess vaddr tid r prefetch accept s = Inr (b, s') \<Longrightarrow> issueState s' = issueState s"
  by (auto simp: performCacheAccess_def issueState_def translationsStarted_def Let_def
           split: sum.splits if_splits)

lemma processTrap_issueState:
  "processTrap tid fault r s = Inr s' \<Longrightarrow> issueState s' = issueState s"
  by (auto simp: processTrap_def buildInst_def issueState_def translationsStarted_def Let_def
           split: sum.splits if_splits prod.splits)

lemma updateFetchStatus_issueState:
  "issueState ((snd (updateFetchStatus s))\<lparr>stageStatus := st\<rparr>) = issueState s"
  by (simp add: updateFetchStatus_def issueState_def translationsStarted_def)

lemma recordTranslation_issueState:
  "recordTranslation fault r ft lat prefetch s = Some s' \<Longrightarrow> issueState s' = issueState s"
  by (auto simp: recordTranslation_def issueState_def translationsStarted_def
           split: option.splits if_splits)

lemma finishTranslation_issueState:
  assumes "finishTranslation fault r ft lat accept s = Inr s'"
  shows "issueState s' = issueState (s\<lparr>outstandingTranslations := outstandingTranslations s - 1\<rparr>)"
proof -
  define tid where "tid = cpuContextToThread s (reqContextId (reqStore s r))"
  define s1 where "s1 = s\<lparr>extLog := extLog s @ [WakeCPU],
                          outstandingTranslations := outstandingTranslations s - 1\<rparr>"
  define stale where "stale \<longleftrightarrow> fetchStatus s1 tid \<noteq> ItlbWait
                 \<or> (case memReq s1 tid of
                       None \<Rightarrow> True
                     | Some m \<Rightarrow> r \<noteq> m
                         \<or> reqVaddr (reqStore s1 r) \<noteq> reqVaddr (reqStore s1 m))"
  have v1: "issueState s1 = issueState (s\<lparr>outstandingTranslations := outstandingTranslations s - 1\<rparr>)"
    by (simp add: s1_def issueState_def translationsStarted_def)
  have unfolded: "finishTranslation fault r ft lat accept s =
    (if cpuSwitchedOut s then Inl (AssertionFailed ''!cpu->switchedOut()'')
     else if stale
     then (case recordTranslation fault r ft lat True s1 of
             Some s2 \<Rightarrow> Inr s2
           | None \<Rightarrow> Inr (s1\<lparr>fetchStats := (fetchStats s1)
                              \<lparr>tlbSquashes := tlbSquashes (fetchStats s1) + 1\<rparr>\<rparr>))
     else (case (if fault = NoFault
                 then (case performCacheAccess (reqVaddr (reqStore s r)) tid r False accept
                              (case recordTranslation fault r ft lat False s1 of
                                 Some t \<Rightarrow> t | None \<Rightarrow> s1) of
                         Inl e \<Rightarrow> Inl e
                       | Inr (sent, t) \<Rightarrow> Inr t)
                 else processTrap tid fault (Some r)
                        (case recordTranslation fault r ft lat False s1 of
                           Some t \<Rightarrow> t | None \<Rightarrow> s1)) of
             Inl e \<Rightarrow> Inl e
           | Inr s3 \<Rightarrow> (case updateFetchStatus s3 of (st, s4) \<Rightarrow> Inr (s4\<lparr>stageStatus := st\<rparr>))))"
    unfolding finishTranslation_def Let_def tid_def s1_def stale_def by (rule refl)
  have rec: "issueState (case recordTranslation fault r ft lat False s1 of
                           Some t \<Rightarrow> t | None \<Rightarrow> s1) = issueState s1"
    by (auto split: option.splits dest: recordTranslation_issueState)
  have "issueState s' = issueState s1"
  proof (cases stale)
    case True
    show ?thesis
    proof (cases "recordTranslation fault r ft lat True s1")
      case None
      with True assms unfolded show ?thesis
        by (auto simp: issueState_def translationsStarted_def split: if_splits)
    next
      case (Some s2)
      with True assms unfolded have "s' = s2" by (auto split: if_splits)
      with recordTranslation_issueState [OF Some] show ?thesis by simp
    qed
  next
    case False
    with assms unfolded obtain s3 where
      r3: "(if fault = NoFault
                 then (case performCacheAccess (reqVaddr (reqStore s r)) tid r False accept
                              (case recordTranslation fault r ft lat False s1 of
                                 Some t \<Rightarrow> t | None \<Rightarrow> s1) of
                         Inl e \<Rightarrow> Inl e
                       | Inr (sent, t) \<Rightarrow> Inr t)
                 else processTrap tid fault (Some r)
                        (case recordTranslation fault r ft lat False s1 of
                           Some t \<Rightarrow> t | None \<Rightarrow> s1)) = Inr s3"
      and s': "s' = (snd (updateFetchStatus s3))\<lparr>stageStatus := fst (updateFetchStatus s3)\<rparr>"
      by (auto split: if_splits sum.splits prod.splits)
    have "issueState s3 = issueState s1"
    proof (cases "fault = NoFault")
      case True
      with r3 obtain sent where
        "performCacheAccess (reqVaddr (reqStore s r)) tid r False accept
            (case recordTranslation fault r ft lat False s1 of Some t \<Rightarrow> t | None \<Rightarrow> s1)
          = Inr (sent, s3)"
        by (auto split: sum.splits)
      from performCacheAccess_issueState [OF this] rec show ?thesis by simp
    next
      case False
      with r3 have "processTrap tid fault (Some r)
            (case recordTranslation fault r ft lat False s1 of Some t \<Rightarrow> t | None \<Rightarrow> s1) = Inr s3"
        by simp
      from processTrap_issueState [OF this] rec show ?thesis by simp
    qed
    then show ?thesis by (simp add: s' updateFetchStatus_issueState)
  qed
  with v1 show ?thesis by simp
qed

text \<open>
  \<open>startTranslation\<close> calls \<open>translateTiming\<close> once; the counter goes up with the translation
  that the MMU keeps, or up and down again when the MMU answers at once.
\<close>

lemma translationBalance_issueState:
  "issueState s' = issueState s \<Longrightarrow> translationBalance s' = translationBalance s"
  by (simp add: issueState_def translationBalance_def)

lemma mmuTranslated_issueState: "issueState (mmuTranslated fault paddr r s) = issueState s"
  by (simp add: mmuTranslated_def issueState_def translationsStarted_def)

lemma startTranslation_counters:
  assumes "startTranslation r tid ft orc s = Inr s'"
  shows "translationBalance s' = translationBalance s
     \<and> translationsStarted s' = Suc (translationsStarted s)
     \<and> maxOutstandingTranslations s' = maxOutstandingTranslations s
     \<and> outstandingPrefetches s' = outstandingPrefetches s
     \<and> maxOutstandingPrefetches s' = maxOutstandingPrefetches s
     \<and> pfIssued (fetchStats s') = pfIssued (fetchStats s)"
proof -
  define s2 where "s2 = (case ft of
                 None \<Rightarrow> s
               | Some f \<Rightarrow> s\<lparr>ftStore := (ftStore s)
                               (f := ftStartTranslation (ftStore s f) r)\<rparr>)
        \<lparr>outstandingTranslations := outstandingTranslations s + 1,
         extLog := extLog s @ [TranslateTiming r tid]\<rparr>"
  have v2: "issueState s2 = (outstandingTranslations s + 1, maxOutstandingTranslations s, mmuPending s,
     Suc (translationsStarted s), outstandingPrefetches s, maxOutstandingPrefetches s,
     pfIssued (fetchStats s))"
    by (simp add: s2_def issueState_def translationsStarted_def split: option.splits)
  have unfolded: "startTranslation r tid ft orc s =
     (case mmuSync orc of
          None \<Rightarrow> Inr (s2\<lparr>mmuPending := mmuPending s2 @ [(r, tid, ft)]\<rparr>)
        | Some (fault, paddr, lat) \<Rightarrow>
            finishTranslation fault r ft lat (icacheAccept orc) (mmuTranslated fault paddr r s2))"
    unfolding startTranslation_def Let_def s2_def by (simp split: option.splits)
  show ?thesis
  proof (cases "mmuSync orc")
    case None
    with assms unfolded have "s' = s2\<lparr>mmuPending := mmuPending s2 @ [(r, tid, ft)]\<rparr>" by simp
    with v2 show ?thesis
      by (simp add: issueState_def translationBalance_def translationsStarted_def)
  next
    case (Some a)
    obtain fault paddr lat where a: "a = (fault, paddr, lat)" by (cases a)
    with Some assms unfolded have
      "finishTranslation fault r ft lat (icacheAccept orc) (mmuTranslated fault paddr r s2) = Inr s'"
      by simp
    from finishTranslation_issueState [OF this]
    have "issueState s' = issueState ((mmuTranslated fault paddr r s2)
            \<lparr>outstandingTranslations := outstandingTranslations (mmuTranslated fault paddr r s2) - 1\<rparr>)" .
    also have "\<dots> = (outstandingTranslations s, maxOutstandingTranslations s, mmuPending s,
     Suc (translationsStarted s), outstandingPrefetches s, maxOutstandingPrefetches s,
     pfIssued (fetchStats s))"
      using v2 mmuTranslated_issueState [of fault paddr r s2]
      by (simp add: issueState_def translationsStarted_def mmuTranslated_def)
    finally show ?thesis
      by (simp add: issueState_def translationBalance_def)
  qed
qed

lemma makeRequest_issueState:
  "makeRequest vaddr tid pc_addr ft s = (r, s') \<Longrightarrow> issueState s' = issueState s"
  by (auto simp: makeRequest_def issueState_def translationsStarted_def Let_def
           split: option.splits if_splits prod.splits)

lemma selectFetchTarget_issueState:
  "selectFetchTarget vaddr tid s = Inr (ft, s') \<Longrightarrow> issueState s' = issueState s"
  by (auto simp: selectFetchTarget_def issueState_def translationsStarted_def Let_def
           split: option.splits if_splits)

lemma fetchTargetSwitch_balance:
  "fetchTargetSwitch fbpc tid f s = Inr (done, s') \<Longrightarrow>
     translationBalance s' = translationBalance s"
  by (auto simp: fetchTargetSwitch_def translationBalance_def Let_def
           split: FTState.splits sum.splits
           dest!: processTrap_issueState translationBalance_issueState)

lemma fetchCacheLine_request_balance:
  assumes "fetchCacheLine_request fbpc tid pc_addr ft orc s = Inr (b, s')"
  shows "translationBalance s' = translationBalance s"
proof -
  obtain r s1 where mk: "makeRequest fbpc tid pc_addr ft s = (r, s1)"
    by (cases "makeRequest fbpc tid pc_addr ft s")
  have b1: "translationBalance (s1\<lparr>memReq := (memReq s1)(tid := Some r)\<rparr>) = translationBalance s"
    using makeRequest_issueState [OF mk] by (simp add: issueState_def translationBalance_def)
  show ?thesis
  proof (cases "reqPaddr (reqStore s1 r) \<noteq> None")
    case True
    with assms mk obtain sent where
      "performCacheAccess fbpc tid r False (icacheAccept orc)
         (s1\<lparr>memReq := (memReq s1)(tid := Some r)\<rparr>) = Inr (sent, s')"
      by (auto simp: fetchCacheLine_request_def Let_def split: sum.splits)
    from translationBalance_issueState [OF performCacheAccess_issueState [OF this]] b1
    show ?thesis by simp
  next
    case False
    with assms mk have
      "startTranslation r tid ft orc
         (s1\<lparr>memReq := (memReq s1)(tid := Some r),
             fetchStatus := (fetchStatus s1)(tid := ItlbWait)\<rparr>) = Inr s'"
      by (auto simp: fetchCacheLine_request_def Let_def split: sum.splits)
    from startTranslation_counters [OF this] b1 show ?thesis
      by (simp add: translationBalance_def)
  qed
qed

lemma fetchCacheLine_balance:
  assumes "fetchCacheLine vaddr tid pc_addr ft orc s = Inr (b, s')"
  shows "translationBalance s' = translationBalance s"
proof -
  from assms show ?thesis
    unfolding fetchCacheLine_def Let_def
    by (auto split: if_splits sum.splits option.splits prod.splits
             dest!: selectFetchTarget_issueState translationBalance_issueState
                    fetchTargetSwitch_balance fetchCacheLine_request_balance)
qed

lemma processFTQ_translations_counters:
  assumes "processFTQ_translations tid orc s = Inr s'"
  shows "translationBalance s' = translationBalance s
     \<and> (translationsStarted s' \<noteq> translationsStarted s
           \<longrightarrow> outstandingTranslations s < maxOutstandingTranslations s)
     \<and> outstandingPrefetches s' = outstandingPrefetches s
     \<and> maxOutstandingPrefetches s' = maxOutstandingPrefetches s
     \<and> pfIssued (fetchStats s') = pfIssued (fetchStats s)"
proof (cases "outstandingTranslations s < maxOutstandingTranslations s")
  case False
  with assms show ?thesis
    by (auto simp: processFTQ_translations_def translationBalance_def translationsStarted_def)
next
  case True
  show ?thesis
  proof (cases "findAfterHead s tid requiresTranslation")
    case None
    with True assms show ?thesis by (simp add: processFTQ_translations_def)
  next
    case (Some f)
    obtain req s1 where mk:
      "makeRequest (fetchBufferAlignPC s (ftStartAddress (ftStore s f))) tid
         (ftStartAddress (ftStore s f)) None s = (req, s1)"
      by (cases "makeRequest (fetchBufferAlignPC s (ftStartAddress (ftStore s f))) tid
         (ftStartAddress (ftStore s f)) None s")
    with True Some assms have "startTranslation req tid (Some f) orc s1 = Inr s'"
      by (simp add: processFTQ_translations_def Let_def)
    from startTranslation_counters [OF this] makeRequest_issueState [OF mk] True
    show ?thesis by (simp add: issueState_def translationBalance_def)
  qed
qed

lemma processFTQ_prefetch_counters:
  assumes "processFTQ_prefetch tid orc s = Inr s'"
  shows "outstandingTranslations s' = outstandingTranslations s
     \<and> mmuPending s' = mmuPending s
     \<and> translationsStarted s' = translationsStarted s
     \<and> (pfIssued (fetchStats s') \<noteq> pfIssued (fetchStats s)
           \<longrightarrow> outstandingPrefetches s < maxOutstandingPrefetches s)"
  using assms unfolding processFTQ_prefetch_def
  by (auto simp: issueState_def translationsStarted_def
           split: if_splits option.splits sum.splits prod.splits
           dest!: performCacheAccess_issueState)

lemma processFTQ_counters:
  assumes "processFTQ tid orc s = Inr s'"
  shows "translationBalance s' = translationBalance s
     \<and> (translationsStarted s' \<noteq> translationsStarted s
           \<longrightarrow> outstandingTranslations s < maxOutstandingTranslations s)
     \<and> (pfIssued (fetchStats s') \<noteq> pfIssued (fetchStats s)
           \<longrightarrow> outstandingPrefetches s < maxOutstandingPrefetches s)"
proof (cases "length (ftq s tid) < 2 \<or> \<not> ftqValid s tid")
  case True
  with assms have "s' = s" by (auto simp: processFTQ_def split: if_splits)
  then show ?thesis by simp
next
  case False
  with assms obtain s1 where t: "processFTQ_translations tid orc s = Inr s1"
    and p: "processFTQ_prefetch tid orc s1 = Inr s'"
    by (auto simp: processFTQ_def split: if_splits sum.splits)
  from processFTQ_translations_counters [OF t] processFTQ_prefetch_counters [OF p]
  show ?thesis by (auto simp: translationBalance_def)
qed

lemma doSquash_balance:
  "doSquash new_pc squashInst tid s = Inr s' \<Longrightarrow> translationBalance s' = translationBalance s"
  by (auto simp: doSquash_def translationBalance_def Let_def split: if_splits)

lemma checkSignalsAndUpdate_balance:
  "checkSignalsAndUpdate tid sig s = Inr (b, s') \<Longrightarrow> translationBalance s' = translationBalance s"
  unfolding checkSignalsAndUpdate_def squash_def squashFromDecode_def Let_def
  by (auto simp: translationBalance_def split: if_splits sum.splits dest!: doSquash_balance)

lemma processCacheCompletion_balance:
  "processCacheCompletion p latency s = Inr s' \<Longrightarrow> translationBalance s' = translationBalance s"
  unfolding processCacheCompletion_def trySatisfyPrefetch_def switchToActive_def Let_def
  by (auto simp: translationBalance_def split: if_splits sum.splits option.splits prod.splits)

lemma recvReqRetry_balance:
  "recvReqRetry accept s = Inr s' \<Longrightarrow> translationBalance s' = translationBalance s"
  by (auto simp: recvReqRetry_def translationBalance_def Let_def split: if_splits option.splits)

text \<open>
  No event changes the difference between the counter of outstanding translations and
  the number of translations that the MMU holds: it is 0 in every reachable state.
\<close>

lemma step_balance:
  assumes "step ev s = Inr s'"
  shows "translationBalance s' = translationBalance s"
proof (cases ev)
  case (CheckSignals tid sig)
  with assms show ?thesis
    by (auto simp: step_def split: sum.splits dest: checkSignalsAndUpdate_balance)
next
  case (FetchLine vaddr tid pc_addr orc)
  with assms show ?thesis
    by (auto simp: step_def split: if_splits sum.splits dest: fetchCacheLine_balance)
next
  case (ProcessFTQ tid orc)
  with assms show ?thesis
    by (auto simp: step_def split: if_splits dest: processFTQ_counters)
next
  case (TranslationDone i fault paddr lat accept)
  with assms have i: "i < length (mmuPending s)"
    by (auto simp: step_def split: if_splits)
  obtain req tid ft where e: "mmuPending s ! i = (req, tid, ft)"
    by (cases "mmuPending s ! i")
  let ?s1 = "mmuTranslated fault paddr req
               (s\<lparr>mmuPending := take i (mmuPending s) @ drop (Suc i) (mmuPending s)\<rparr>)"
  from assms TranslationDone i e
  have "finishTranslation fault req ft lat accept ?s1 = Inr s'"
    by (simp add: step_def)
  from finishTranslation_issueState [OF this]
  have "translationBalance s' = translationBalance ?s1 - 1"
    by (simp add: issueState_def translationBalance_def)
  moreover have "translationBalance ?s1 = translationBalance s + 1"
    using i by (simp add: mmuTranslated_def translationBalance_def)
  ultimately show ?thesis by simp
next
  case (CacheResponse p data depth latency)
  with assms show ?thesis
    by (auto simp: step_def translationBalance_def split: if_splits option.splits
             dest!: processCacheCompletion_balance)
next
  case (ReqRetry accept)
  with assms show ?thesis
    by (auto simp: step_def split: if_splits dest: recvReqRetry_balance)
next
  case TrapEvent
  with assms show ?thesis
    by (auto simp: step_def translationBalance_def split: option.splits prod.splits
             dest!: processTrap_issueState translationBalance_issueState)
next
  case (Interrupt pending)
  with assms show ?thesis by (auto simp: step_def translationBalance_def)
next
  case (ResumeFetch tid)
  with assms show ?thesis by (auto simp: step_def translationBalance_def split: if_splits)
next
  case (FTQInsert tid start blk fallThrough)
  with assms show ?thesis by (auto simp: step_def translationBalance_def)
next
  case (FTQUpdateHead tid)
  with assms show ?thesis by (auto simp: step_def translationBalance_def split: if_splits)
next
  case (FTQSquash tid)
  with assms show ?thesis by (auto simp: step_def translationBalance_def)
qed

lemma run_balance:
  "run evs s = Inr s' \<Longrightarrow> translationBalance s' = translationBalance s"
proof (induction evs arbitrary: s)
  case Nil
  then show ?case by simp
next
  case (Cons ev evs)
  from Cons.prems obtain s1 where 1: "step ev s = Inr s1" and 2: "run evs s1 = Inr s'"
    by (auto split: sum.splits)
  from Cons.IH [OF 2] step_balance [OF 1] show ?case by simp
qed

lemma resetThreads_balance:
  "translationBalance (fold resetThread tids s) = translationBalance s"
  by (induction tids arbitrary: s) (simp_all add: resetThread_def translationBalance_def)

lemma resetStage_balance: "translationBalance (resetStage s) = translationBalance s"
  using resetThreads_balance
    [of "[0 .. numThreads s - 1]"
        "s\<lparr>numInst := 0, interruptPending := False, cacheBlocked := False, priorityList := []\<rparr>"]
  by (simp add: resetStage_def translationBalance_def)

lemma started_balance:
  assumes "started params = Inr s"
  shows "translationBalance s = 0"
proof -
  from assms obtain s0 where c: "construct params = Inr s0" and s: "s = switchToActive (resetStage s0)"
    by (auto simp: started_def startupStage_def split: sum.splits if_splits)
  from c have "translationBalance s0 = 0"
    by (auto simp: construct_def translationBalance_def split: if_splits)
  with resetStage_balance [of s0] show ?thesis
    by (simp add: s switchToActive_def translationBalance_def)
qed

lemma reachable_balance: "reachable params s \<Longrightarrow> translationBalance s = 0"
  unfolding reachable_def using run_balance started_balance by fastforce

lemmas run_defs = start_defs op_defs ftq_defs cache_defs acceptingCache_def Let_def

lemma atCeiling_run:
  "run squashedDemandTrace (projr (started scenarioParams)) = Inr atCeiling"
  unfolding atCeiling_def
  by (rule Inr_projr) (simp add: squashedDemandTrace_def run_defs)

lemma atCeiling_facts:
  "fetchStatus atCeiling 0 = Running"
  "maxOutstandingTranslations atCeiling = 1"
  "outstandingTranslations atCeiling = 1"
  "translationsStarted atCeiling = 1"
  "mmuPending atCeiling = [(0, 0, None)]"
  "memReq atCeiling 0 = None"
  by (simp_all add: atCeiling_def squashedDemandTrace_def translationsStarted_def run_defs)

lemma overCeiling_step:
  "step (FetchLine 0x2000 0 0x2000 acceptingCache) atCeiling = Inr overCeiling"
  unfolding overCeiling_def
  by (rule Inr_projr)
     (simp add: atCeiling_def squashedDemandTrace_def run_defs)

lemma overCeiling_facts:
  "translationsStarted overCeiling = 2"
  "outstandingTranslations overCeiling = 2"
  "maxOutstandingTranslations overCeiling = 1"
  "fetchStatus overCeiling 0 = ItlbWait"
  by (simp_all add: overCeiling_def atCeiling_def squashedDemandTrace_def translationsStarted_def
        run_defs)

lemma scenario_started: "started scenarioParams = Inr (projr (started scenarioParams))"
  by (rule Inr_projr) (simp add: start_defs)

lemma atCeiling_reachable: "reachable scenarioParams atCeiling"
  unfolding reachable_def using scenario_started atCeiling_run by blast

lemma queuedTargets_facts:
  "processFTQ 0 acceptingCache queuedTargets
     = Inr (projr (processFTQ 0 acceptingCache queuedTargets))"
  "translationsStarted queuedTargets = 0"
  "translationsStarted (projr (processFTQ 0 acceptingCache queuedTargets)) = 1"
  "outstandingTranslations queuedTargets = 0"
  "maxOutstandingTranslations queuedTargets = 1"
  by (simp_all add: queuedTargets_def queuedTargetsTrace_def translationsStarted_def run_defs)

lemma translatedTarget_facts:
  "processFTQ 0 acceptingCache translatedTarget
     = Inr (projr (processFTQ 0 acceptingCache translatedTarget))"
  "pfIssued (fetchStats translatedTarget) = 0"
  "pfIssued (fetchStats (projr (processFTQ 0 acceptingCache translatedTarget))) = 1"
  "outstandingPrefetches translatedTarget = 0"
  "maxOutstandingPrefetches translatedTarget = 2"
  by (simp_all add: translatedTarget_def translatedTargetTrace_def queuedTargetsTrace_def run_defs)

lemma lateDemand_run:
  "run lateDemandTrace (projr (started dfeParams)) = Inr lateDemand"
  unfolding lateDemand_def
  by (rule Inr_projr) (simp add: lateDemandTrace_def run_defs)

lemma lateDemand_facts:
  "ftq lateDemand 0 = [0, 1, 2]"
  "ftReq (ftStore lateDemand 1) = Some 1"
  "ftState (ftStore lateDemand 1) = ReadyToFetch"
  "ftState (ftStore lateDemand 2) = TranslationReady"
  "fetchStatus lateDemand 0 = NoGoodAddr"
  "memReq lateDemand 0 = None"
  "icacheInFlight lateDemand = [1]"
  "map_option pktReq (pktStore lateDemand 1) = Some 1"
  "outstandingPrefetches lateDemand = 0"
  "pfIssued (fetchStats lateDemand) = 0"
  "pfSquashed (fetchStats lateDemand) = 0"
  "squashCycles (fetchStats lateDemand) = 0"
  by (simp_all add: lateDemand_def lateDemandTrace_def run_defs)

lemma negativePrefetches_step:
  "step (CacheResponse 1 (replicate 16 0) 1 5) lateDemand = Inr negativePrefetches"
  unfolding negativePrefetches_def
  by (rule Inr_projr) (simp add: lateDemand_def lateDemandTrace_def run_defs)

lemma negativePrefetches_facts:
  "outstandingPrefetches negativePrefetches = - 1"
  "ftState (ftStore negativePrefetches 1) = ReadyToFetch"
  by (simp_all add: negativePrefetches_def lateDemand_def lateDemandTrace_def run_defs)

lemma dfe_started: "started dfeParams = Inr (projr (started dfeParams))"
  by (rule Inr_projr) (simp add: start_defs)

text \<open>
  C4, as the code has it.  In every reachable state \<open>outstandingTranslations\<close> is the number
  of translations that the MMU holds, so it is not negative.  When \<open>processFTQ\<close> starts a
  translation, \<open>outstandingTranslations\<close> was below \<open>maxOutstandingTranslations\<close>, and when it
  sends a prefetch, \<open>outstandingPrefetches\<close> was below \<open>maxOutstandingPrefetches\<close>.  The
  ceiling does not bind the translations that \<open>fetchCacheLine\<close> starts for a demand, and
  nothing is said of the sign of \<open>outstandingPrefetches\<close>, which a run without a squash
  takes to -1.
\<close>

theorem counters_at_issue:
  "(reachable params s \<longrightarrow>
      outstandingTranslations s = int (length (mmuPending s)) \<and> 0 \<le> outstandingTranslations s)
   \<and> (processFTQ tid orc s = Inr s' \<and> translationsStarted s' \<noteq> translationsStarted s \<longrightarrow>
        outstandingTranslations s < maxOutstandingTranslations s)
   \<and> (processFTQ tid orc s = Inr s' \<and> pfIssued (fetchStats s') \<noteq> pfIssued (fetchStats s) \<longrightarrow>
        outstandingPrefetches s < maxOutstandingPrefetches s)"
  using reachable_balance [of params s] processFTQ_counters [of tid orc s s']
  by (auto simp: translationBalance_def)

theorem counters_at_issue_witness:
  "reachable scenarioParams atCeiling
   \<and> outstandingTranslations atCeiling = 1
   \<and> mmuPending atCeiling = [(0, 0, None)]
   \<and> processFTQ 0 acceptingCache queuedTargets
       = Inr (projr (processFTQ 0 acceptingCache queuedTargets))
   \<and> translationsStarted queuedTargets = 0
   \<and> translationsStarted (projr (processFTQ 0 acceptingCache queuedTargets)) = 1
   \<and> outstandingTranslations queuedTargets = 0
   \<and> maxOutstandingTranslations queuedTargets = 1
   \<and> processFTQ 0 acceptingCache translatedTarget
       = Inr (projr (processFTQ 0 acceptingCache translatedTarget))
   \<and> pfIssued (fetchStats translatedTarget) = 0
   \<and> pfIssued (fetchStats (projr (processFTQ 0 acceptingCache translatedTarget))) = 1
   \<and> outstandingPrefetches translatedTarget = 0
   \<and> maxOutstandingPrefetches translatedTarget = 2"
  using counters_at_issue [of scenarioParams atCeiling 0 acceptingCache
          "projr (processFTQ 0 acceptingCache atCeiling)"]
    counters_at_issue [of dfeParams queuedTargets 0 acceptingCache
          "projr (processFTQ 0 acceptingCache queuedTargets)"]
    counters_at_issue [of dfeParams translatedTarget 0 acceptingCache
          "projr (processFTQ 0 acceptingCache translatedTarget)"]
    atCeiling_reachable atCeiling_facts queuedTargets_facts translatedTarget_facts
  by simp

text \<open>
  C4, as the spec states it, fails in two places.  For the translation of a demand: in
  the scenario configuration, whose ceiling is 1, the thread is squashed while the MMU
  holds its translation; Running again, it asks for the line at 0x2000, and \<open>fetchCacheLine\<close>
  starts a second translation with \<open>outstandingTranslations\<close> at the ceiling, which takes it
  to 2.  For the sign of \<open>outstandingPrefetches\<close>: in the run without a squash in which the
  prefetch of a bad address has set the thread to NoGoodAddr, the response to the demand
  packet no longer matches the thread; \<open>trySatisfyPrefetch\<close> finds the request of the packet
  held by the second target and takes \<open>outstandingPrefetches\<close> from 0 to -1, although no
  prefetch has been sent.
\<close>

theorem counters_outside_their_bounds:
  "started scenarioParams = Inr (projr (started scenarioParams))
   \<and> run squashedDemandTrace (projr (started scenarioParams)) = Inr atCeiling
   \<and> fetchStatus atCeiling 0 = Running
   \<and> maxOutstandingTranslations atCeiling = 1
   \<and> outstandingTranslations atCeiling = 1
   \<and> translationsStarted atCeiling = 1
   \<and> step (FetchLine 0x2000 0 0x2000 acceptingCache) atCeiling = Inr overCeiling
   \<and> translationsStarted overCeiling = 2
   \<and> outstandingTranslations overCeiling = 2
   \<and> maxOutstandingTranslations overCeiling = 1
   \<and> started dfeParams = Inr (projr (started dfeParams))
   \<and> run lateDemandTrace (projr (started dfeParams)) = Inr lateDemand
   \<and> outstandingPrefetches lateDemand = 0
   \<and> pfIssued (fetchStats lateDemand) = 0
   \<and> squashCycles (fetchStats lateDemand) = 0
   \<and> step (CacheResponse 1 (replicate 16 0) 1 5) lateDemand = Inr negativePrefetches
   \<and> outstandingPrefetches negativePrefetches = - 1"
  using scenario_started atCeiling_run atCeiling_facts overCeiling_step overCeiling_facts
    dfe_started lateDemand_run lateDemand_facts negativePrefetches_step negativePrefetches_facts
  by simp

end
